theory Spec2Isabelle
  imports Main "HOL-Library.AList"
begin

section \<open>JavaScript values, dictionaries and errors\<close>

text \<open>
  The values that travel through \<^verbatim>\<open>lib/modules/models/model.js\<close>. Numbers are
  integers here (nothing proved below depends on fractions or NaN). A dictionary is a JavaScript
  object used as a map: the association list of its own entries in insertion order, which is
  the order of \<^verbatim>\<open>Object.keys\<close> for the names used here. Its prototype is
  \<^verbatim>\<open>Object.prototype\<close>, as for an object literal and for a parsed request body. A
  function is a value of its own; no function is ever called through a value.
\<close>

datatype jsval =
    JUndefined
  | JNull
  | JBool bool
  | JNum int
  | JStr string
  | JArr "jsval list"
  | JObj "(string \<times> jsval) list"
  | JFunction

type_synonym dict = "(string \<times> jsval) list"

text \<open>Truthiness, as \<^verbatim>\<open>if(v)\<close>, \<^verbatim>\<open>!v\<close> and \<^verbatim>\<open>v || w\<close> read a value.\<close>

fun truthy :: "jsval \<Rightarrow> bool" where
  "truthy JUndefined = False"
| "truthy JNull = False"
| "truthy (JBool b) = b"
| "truthy (JNum n) = (n \<noteq> 0)"
| "truthy (JStr s) = (s \<noteq> [])"
| "truthy (JArr xs) = True"
| "truthy (JObj d) = True"
| "truthy JFunction = True"

text \<open>
  The names every plain object inherits from \<^verbatim>\<open>Object.prototype\<close>, and what reading
  one of them gives on an object that has no entry of that name: the prototype object itself
  for \<^verbatim>\<open>__proto__\<close> (an object with no enumerable member), a function for the others.
\<close>

definition Object_prototype_names :: "string list" where
  "Object_prototype_names =
     [''constructor'', ''toString'', ''toLocaleString'', ''valueOf'', ''hasOwnProperty'',
      ''isPrototypeOf'', ''propertyIsEnumerable'', ''__proto__'', ''__defineGetter__'',
      ''__defineSetter__'', ''__lookupGetter__'', ''__lookupSetter__'']"

definition inherited_member :: "string \<Rightarrow> jsval" where
  "inherited_member k = (if k = ''__proto__'' then JObj [] else JFunction)"

text \<open>
  \<^verbatim>\<open>d[k]\<close>: the entry of that name; without one, the inherited member of that name;
  without either, \<^verbatim>\<open>undefined\<close>.
\<close>

definition dget :: "dict \<Rightarrow> string \<Rightarrow> jsval" where
  "dget d k =
     (case map_of d k of
        Some v \<Rightarrow> v
      | None \<Rightarrow> if k \<in> set Object_prototype_names then inherited_member k else JUndefined)"

text \<open>
  \<^verbatim>\<open>d[k] = v\<close>: an existing key keeps its place, a new key goes last. (An assignment
  to \<^verbatim>\<open>__proto__\<close> is no entry in JavaScript; no name written below is
  \<^verbatim>\<open>__proto__\<close>: \<^verbatim>\<open>addProperty\<close> refuses a property name that starts with an
  underscore, an operator starts with a dollar sign, and \<^verbatim>\<open>limit\<close> is a fixed name.)
\<close>

definition dset :: "dict \<Rightarrow> string \<Rightarrow> jsval \<Rightarrow> dict" where
  "dset d k v = AList.update k v d"

text \<open>
  An \<^verbatim>\<open>Error\<close> object: the optional \<^verbatim>\<open>status\<close> field and the message. A
  \<^verbatim>\<open>TypeError\<close> is what the runtime throws when a member of \<^verbatim>\<open>undefined\<close> or
  \<^verbatim>\<open>null\<close> is read or a non-function is called.
\<close>

datatype js_error =
    Error (err_status: "int option") (err_message: string)
  | TypeError

section \<open>Access-control denials\<close>

text \<open>
  \<^verbatim>\<open>unauthenticatedError(authenticator)\<close>, model.js lines 10 to 23. The authenticator is
  what resolving the current actor gave: a model instance (an object) or \<^verbatim>\<open>null\<close>.
\<close>

definition unauthenticatedError :: "jsval \<Rightarrow> js_error" where
  "unauthenticatedError authenticator =
     (if truthy authenticator then Error (Some 403) ''Forbidden''
      else Error (Some 401) ''Unauthorized'')"

text \<open>
  The copy in \<^verbatim>\<open>test/fixtures/api/tester.js\<close>, lines 17 to 29, takes the message from
  Node's \<^verbatim>\<open>http.STATUS_CODES\<close>; the entries the fixture can read are written out.
\<close>

definition STATUS_CODES :: "int \<Rightarrow> string" where
  "STATUS_CODES n =
     (if n = 400 then ''Bad Request''
      else if n = 401 then ''Unauthorized''
      else if n = 403 then ''Forbidden''
      else [])"

definition tester_unauthenticatedError :: "jsval \<Rightarrow> js_error" where
  "tester_unauthenticatedError authenticator =
     (let status = (if truthy authenticator then 403 else 401)
      in Error (Some status) (STATUS_CODES status))"

definition badRequestError :: js_error where
  "badRequestError = Error (Some 400) (STATUS_CODES 400)"

section \<open>Properties\<close>

text \<open>
  Modelled from the spec: Property (sections 3 and 4.1), "name, types, owningModel,
  options"; \<^verbatim>\<open>lib/modules/models/property.js\<close> is not part of the sources. The
  options record holds the options that model.js and the API fixture read, under the
  names they read them by. A hook is the function of the value it is handed; hooks are
  taken to return a value. The default value is what the default function returns.
\<close>

datatype assoc_kind = BelongsTo | HasOne | HasMany | ManyToMany

record options =
  transformMethod :: "(dict \<Rightarrow> jsval) option"
  hashMethod :: "(dict \<Rightarrow> jsval) option"
  selectMethod :: "(jsval \<Rightarrow> dict option) option"
  defaultValue :: "jsval option"
  defaultChangePropertyName :: "string option"
  canSet :: jsval
  canUpdate :: jsval
  association :: "assoc_kind option"
  referenceName :: "string option"
  through :: "string option"

record property =
  p_name :: string
  p_options :: options

text \<open>
  Modelled from the spec: the predicates of Property (section 4.1), which are not in
  the sources: each reads the option that the matching modifier sets.
\<close>

definition isTransformable :: "property \<Rightarrow> bool" where
  "isTransformable p = (transformMethod (p_options p) \<noteq> None)"

definition isSelectable :: "property \<Rightarrow> bool" where
  "isSelectable p = (selectMethod (p_options p) \<noteq> None)"

definition isAssociation :: "property \<Rightarrow> bool" where
  "isAssociation p = (association (p_options p) \<noteq> None)"

definition isManyToMany :: "property \<Rightarrow> bool" where
  "isManyToMany p = (association (p_options p) = Some ManyToMany)"

text \<open>
  Modelled from the spec: the Property constructor. "Modifiers compose by mutating a
  shared options record; later modifiers may override earlier ones": a property type
  is a function on the options, and the constructor applies the list in order.
\<close>

type_synonym ptype = "options \<Rightarrow> options"

definition no_options :: options where
  "no_options = \<lparr>transformMethod = None, hashMethod = None, selectMethod = None,
     defaultValue = None, defaultChangePropertyName = None, canSet = JUndefined,
     canUpdate = JUndefined, association = None, referenceName = None, through = None\<rparr>"

definition new_Property :: "string \<Rightarrow> ptype list \<Rightarrow> property" where
  "new_Property name types =
     \<lparr>p_name = name, p_options = fold (\<lambda>t opts. t opts) types no_options\<rparr>"

text \<open>
  Modelled from the spec: the two types of the implicit id, "UUID, not
  client-updatable". \<^verbatim>\<open>UUID\<close> fixes the column type only.
\<close>

definition UUID :: ptype where
  "UUID opts = opts"

definition CanUpdate :: "bool \<Rightarrow> ptype" where
  "CanUpdate b opts = opts\<lparr>canUpdate := JBool b\<rparr>"

section \<open>Models, the migration, the datastore\<close>

text \<open>
  A member of a model object as \<^verbatim>\<open>getAllProperties\<close> tells them apart: an array (of
  property types), a function, or any other value.
\<close>

datatype field = FArray "ptype list" | FFunction | FValue jsval

fun field_truthy :: "field \<Rightarrow> bool" where
  "field_truthy (FArray ts) = True"
| "field_truthy FFunction = True"
| "field_truthy (FValue v) = truthy v"

text \<open>
  The Model object. \<open>m_fields\<close> are the enumerable members of the object itself in
  the order \<^verbatim>\<open>for(propertyName in this)\<close> yields them; \<open>m_properties\<close> is
  \<^verbatim>\<open>_properties\<close>, \<^verbatim>\<open>null\<close> until the properties are first enumerated.
\<close>

record model =
  m_name :: string
  m_fields :: "(string \<times> field) list"
  m_properties :: "(string \<times> property) list option"
  m_methods :: "string list"
  m_associations :: "(string \<times> property) list"
  m_table :: bool
  m_activeMigration :: bool
  automaticPropertyName :: "string option"

text \<open>
  What reading \<^verbatim>\<open>obj[key]\<close> on a plain object used as a dictionary of properties
  gives: the entry, nothing, or a member inherited from \<^verbatim>\<open>Object.prototype\<close>.
\<close>

datatype slot = Absent | Inherited | Own property

definition read_slot :: "(string \<times> property) list \<Rightarrow> string \<Rightarrow> slot" where
  "read_slot props key =
     (case map_of props key of
        Some p \<Rightarrow> Own p
      | None \<Rightarrow> if key \<in> set Object_prototype_names then Inherited else Absent)"

text \<open>
  The names for which \<^verbatim>\<open>typeof Model.prototype[propertyName]\<close> is not
  \<^verbatim>\<open>'undefined'\<close>: every member model.js assigns on the prototype (the hooks set to
  \<^verbatim>\<open>null\<close> have type \<^verbatim>\<open>'object'\<close>) and those inherited from
  \<^verbatim>\<open>Object.prototype\<close>.
\<close>

definition Model_prototype_names :: "string list" where
  "Model_prototype_names =
     [''isShared'', ''authorize'', ''new'', ''signOut'', ''findMe'', ''getMe'',
      ''resetPassword'', ''forgotPassword'', ''getFileName'', ''isAuthenticator'',
      ''isPasswordBasedAuthenticator'', ''setActiveMigration'', ''getAllAssociations'',
      ''getAssociations'', ''getAssociation'', ''removeAllAssociations'',
      ''findAssociationsTo'', ''setTable'', ''getTable'', ''getName'', ''addProperty'',
      ''_addProperty'', ''_addMethod'', ''_removeManyAssociationTo'',
      ''_removeOneAssociationTo'', ''removeProperty'', ''getProperty'', ''getMethods'',
      ''getAllProperties'', ''changeProperties'', ''addProperties'', ''edit'',
      ''removeProperties'', ''setup'', ''_create'', ''updateFunction'', ''update'',
      ''updateOne'', ''_updateOne'', ''getOne'', ''exists'', ''count'', ''removeAll'',
      ''remove'', ''removeOne'', ''findOrCreate'', ''updateOrCreate'', ''_transformSetMap'',
      ''_transformWhereMap'', ''find'', ''_createModelInstances'', ''findOne'',
      ''_findAuthenticator'', ''canCreate'', ''create'', ''forceDestroy'', ''destroy'',
      ''setAccessControl'', ''getAccessControl'', ''execute'', ''accessControl'',
      ''beforeCreate'', ''afterCreate'', ''afterSave'', ''beforeSave'', ''afterUpdate'',
      ''beforeUpdate'', ''afterLoad'', ''beforeLoad'', ''onForgotPassword'',
      ''onResetPassword'', ''onChangePassword''] @ Object_prototype_names"

text \<open>
  An argument of a call: a value, or a reference to an object the caller keeps (the
  options object of \<^verbatim>\<open>find\<close>, \<^verbatim>\<open>update\<close> and \<^verbatim>\<open>remove\<close>).
\<close>

datatype arg = AVal jsval | ARef nat

record task =
  task_model :: string
  task_operation :: string
  task_args :: "arg list"

text \<open>
  \<^verbatim>\<open>lib/modules/migrations\<close> is not part of the sources. The active migration is the
  list of the calls model.js makes on it, oldest first.
\<close>

datatype migration_call =
    AddTask task
  | AddProperty property slot
  | RemoveProperty property

text \<open>The calls model.js makes on \<^verbatim>\<open>this._table\<close>, with their arguments.\<close>

datatype table_call =
    TAlter jsval jsval jsval
  | TCreate
  | TInsert dict
  | TUpdate dict dict jsval jsval jsval
  | TRemove dict jsval jsval jsval
  | TSelect dict jsval jsval jsval jsval jsval jsval jsval
  | TExecute jsval jsval
  | TExists
  | TDrop bool

text \<open>
  A row of a result set: its \<^verbatim>\<open>id\<close> column and the other columns (among them those
  of the joined association).
\<close>

record 'id row =
  row_id :: 'id
  row_columns :: dict

datatype db_result = Rows "jsval row list" | Raw jsval

text \<open>
  The state a call works on: the models by name, the calls the active migration has
  received, the calls issued to the datastore (with the model whose table it was), the
  datastore's answer to a call, and the objects callers hold by reference.
\<close>

record world =
  models :: "string \<Rightarrow> model"
  migration :: "migration_call list"
  datastore :: "(string \<times> table_call) list"
  db :: "string \<Rightarrow> table_call \<Rightarrow> js_error + db_result"
  heap :: "nat \<Rightarrow> dict"

text \<open>
  How a call ends: an exception thrown in the call itself, a promise that is rejected
  or resolved, a plain return value, or the handle of a task the migration queued.
\<close>

datatype 'a outcome =
    Throws js_error
  | Rejects js_error
  | Returns 'a
  | Resolves 'a
  | Queued nat

definition put_model :: "string \<Rightarrow> model \<Rightarrow> world \<Rightarrow> world" where
  "put_model n m w = w\<lparr>models := (models w)(n := m)\<rparr>"

text \<open>JavaScript writes a backquote in its messages.\<close>

definition bq :: string where
  "bq = [CHR 0x60]"

subsection \<open>addProperty, getAllProperties\<close>

text \<open>model.js lines 461 to 477.\<close>

definition addProperty :: "string \<Rightarrow> property \<Rightarrow> bool \<Rightarrow> world \<Rightarrow> property outcome \<times> world" where
  "addProperty n property isNew w =
     (if p_name property = [] \<or> hd (p_name property) = CHR ''_'' \<or> hd (p_name property) = CHR ''$''
      then (Throws (Error None (''Invalid property name '' @ bq @ p_name property @ bq @
              ''. Property names may not start with _ or $ as they are reserved.'')), w)
      else
        (case m_properties (models w n) of
           None \<Rightarrow> (Throws TypeError, w)
         | Some props \<Rightarrow>
            (let w1 = (if \<not> isNew \<and> m_activeMigration (models w n)
                       then w\<lparr>migration := migration w @
                              [AddProperty property (read_slot props (p_name property))]\<rparr>
                       else w);
                 this = models w1 n;
                 this = this\<lparr>m_properties := Some (AList.update (p_name property) property props)\<rparr>;
                 this = (if isAssociation property
                         then this\<lparr>m_associations :=
                                AList.update (p_name property) property (m_associations this)\<rparr>
                         else this)
             in (Returns property, put_model n this w1))))"

text \<open>model.js lines 491 to 496.\<close>

definition priv_addProperty ::
  "string \<Rightarrow> string \<Rightarrow> ptype list \<Rightarrow> bool \<Rightarrow> world \<Rightarrow> property option outcome \<times> world" where
  "priv_addProperty n propertyName propertyTypes isNew w =
     (if propertyTypes \<noteq> []
      then (case addProperty n (new_Property propertyName propertyTypes) isNew w of
              (Returns p, w') \<Rightarrow> (Returns (Some p), w')
            | (Throws e, w') \<Rightarrow> (Throws e, w')
            | (_, w') \<Rightarrow> (Throws TypeError, w'))
      else (Returns None, w))"

text \<open>model.js lines 527 to 529.\<close>

definition priv_addMethod :: "string \<Rightarrow> string \<Rightarrow> world \<Rightarrow> world" where
  "priv_addMethod n methodName w =
     (let this = models w n
      in put_model n (this\<lparr>m_methods :=
           (if methodName \<in> set (m_methods this) then m_methods this
            else m_methods this @ [methodName])\<rparr>) w)"

text \<open>
  The loop of \<^verbatim>\<open>getAllProperties\<close> (lines 667 to 678) over the members of the
  object. An exception of \<^verbatim>\<open>_addProperty\<close> leaves the loop.
\<close>

fun enumerate_members :: "string \<Rightarrow> (string \<times> field) list \<Rightarrow> world \<Rightarrow> unit outcome \<times> world" where
  "enumerate_members n [] w = (Returns (), w)"
| "enumerate_members n ((propertyName, propertyTypes) # rest) w =
     (if propertyName \<notin> set Model_prototype_names
      then (case propertyTypes of
              FArray ts \<Rightarrow>
                (case priv_addProperty n propertyName ts True w of
                   (Throws e, w') \<Rightarrow> (Throws e, w')
                 | (_, w') \<Rightarrow> enumerate_members n rest w')
            | FFunction \<Rightarrow> enumerate_members n rest (priv_addMethod n propertyName w)
            | FValue v \<Rightarrow> enumerate_members n rest w)
      else enumerate_members n rest w)"

text \<open>
  model.js lines 655 to 682. \<^verbatim>\<open>this.id\<close> reads the member \<open>id\<close> of the object
  (\<^verbatim>\<open>undefined\<close> when there is none).
\<close>

definition id_types :: "ptype list" where
  "id_types = [UUID, CanUpdate False]"

definition getAllProperties ::
  "string \<Rightarrow> world \<Rightarrow> (string \<times> property) list outcome \<times> world" where
  "getAllProperties n w =
     (case m_properties (models w n) of
        Some props \<Rightarrow> (Returns props, w)
      | None \<Rightarrow>
         (let this = (models w n)\<lparr>m_properties := Some []\<rparr>;
              this = (if \<not> (case map_of (m_fields this) ''id'' of
                                None \<Rightarrow> False | Some f \<Rightarrow> field_truthy f)
                      then this\<lparr>m_fields := AList.update ''id'' (FArray id_types) (m_fields this),
                                m_properties := Some [(''id'', new_Property ''id'' id_types)]\<rparr>
                      else this);
              w1 = put_model n this w
          in (case enumerate_members n (m_fields this) w1 of
                (Throws e, w2) \<Rightarrow> (Throws e, w2)
              | (_, w2) \<Rightarrow>
                  (case m_properties (models w2 n) of
                     Some props \<Rightarrow> (Returns props, w2)
                   | None \<Rightarrow> (Throws TypeError, w2)))))"

subsection \<open>Vocabulary for the statements about getAllProperties\<close>

text \<open>
  A name \<^verbatim>\<open>addProperty\<close> accepts: not empty, not starting with \<^verbatim>\<open>_\<close> or
  \<^verbatim>\<open>$\<close>.
\<close>

definition valid_name :: "string \<Rightarrow> bool" where
  "valid_name k = (k \<noteq> [] \<and> hd k \<noteq> CHR ''_'' \<and> hd k \<noteq> CHR ''$'')"

text \<open>How many entries of a dictionary have the key \<open>id\<close>.\<close>

definition id_count :: "(string \<times> 'a) list \<Rightarrow> nat" where
  "id_count ps = length (filter (\<lambda>kv. fst kv = ''id'') ps)"

text \<open>
  The member \<open>id\<close> of a model object was never declared (it is missing or falsy), or
  it was declared as a non-empty array of property types.
\<close>

definition id_undeclared :: "model \<Rightarrow> bool" where
  "id_undeclared m =
     (case map_of (m_fields m) ''id'' of None \<Rightarrow> True | Some f \<Rightarrow> \<not> field_truthy f)"

definition id_typed :: "model \<Rightarrow> bool" where
  "id_typed m =
     (case map_of (m_fields m) ''id'' of Some (FArray ts) \<Rightarrow> ts \<noteq> [] | _ \<Rightarrow> False)"

text \<open>Every member that \<^verbatim>\<open>getAllProperties\<close> turns into a property has a valid name.\<close>

definition members_named :: "(string \<times> field) list \<Rightarrow> bool" where
  "members_named fs =
     list_all (\<lambda>kf. case snd kf of
                      FArray ts \<Rightarrow> fst kf \<notin> set Model_prototype_names \<and> ts \<noteq> [] \<longrightarrow> valid_name (fst kf)
                    | _ \<Rightarrow> True) fs"

text \<open>What one member contributes to the dictionary of properties.\<close>

fun add_declared :: "string \<times> field \<Rightarrow> (string \<times> property) list \<Rightarrow> (string \<times> property) list" where
  "add_declared (k, FArray ts) ps =
     (if k \<notin> set Model_prototype_names \<and> ts \<noteq> [] then AList.update k (new_Property k ts) ps else ps)"
| "add_declared (k, FFunction) ps = ps"
| "add_declared (k, FValue v) ps = ps"

text \<open>
  Modelled from the spec: the property type \<^verbatim>\<open>String\<close>, which fixes the column type
  only.
\<close>

definition String :: ptype where
  "String opts = opts"

text \<open>Two model objects and a state to run them in.\<close>

definition blank_model :: "string \<Rightarrow> (string \<times> field) list \<Rightarrow> model" where
  "blank_model n fs =
     \<lparr>m_name = n, m_fields = fs, m_properties = None, m_methods = [], m_associations = [],
      m_table = True, m_activeMigration = False, automaticPropertyName = None\<rparr>"

definition world_of :: "model \<Rightarrow> world" where
  "world_of m =
     \<lparr>models = (\<lambda>n. m), migration = [], datastore = [], db = (\<lambda>n c. Inr (Rows [])),
      heap = (\<lambda>a. [])\<rparr>"

definition user_model :: model where
  "user_model = blank_model ''User'' [(''name'', FArray [String])]"

definition empty_id_model :: model where
  "empty_id_model = blank_model ''User'' [(''id'', FArray []), (''name'', FArray [String])]"

section \<open>The set-map pipeline\<close>

text \<open>
  \<^verbatim>\<open>_transformSetMap\<close>, model.js lines 1121 to 1169. The \<^verbatim>\<open>forEach\<close> over the
  properties runs in the call itself and only appends callbacks to the promise chain
  \<^verbatim>\<open>result\<close>: a \<^verbatim>\<open>then\<close> callback of Q never runs before the calling code has
  returned. So every condition of the loop reads the set-map as it was passed in, and
  the callbacks run afterwards, in the order they were appended. A step is one appended
  callback.
\<close>

datatype step = Transform property | Hash property | Default property

text \<open>
  The condition of line 1142. \<^verbatim>\<open>setMap[property.name]\<close> is a member read: for a
  property called \<^verbatim>\<open>constructor\<close> or \<^verbatim>\<open>valueOf\<close> it gives the inherited
  function when the set-map has no entry of that name.
\<close>

definition hash_applies :: "property \<Rightarrow> dict \<Rightarrow> bool" where
  "hash_applies property setMap =
     (hashMethod (p_options property) \<noteq> None \<and> truthy (dget setMap (p_name property)))"

text \<open>
  The conditions of lines 1153 and 1154. The default value is a function, so it is
  truthy when set; an empty companion name is falsy.
\<close>

definition default_applies :: "property \<Rightarrow> dict \<Rightarrow> bool \<Rightarrow> bool" where
  "default_applies property setMap isNew =
     (defaultValue (p_options property) \<noteq> None \<and>
      (\<not> truthy (dget setMap (p_name property)) \<and> isNew
       \<or> \<not> isNew \<and> dget setMap (p_name property) \<noteq> JUndefined
            \<and> \<not> truthy (dget setMap (p_name property))
       \<or> (case defaultChangePropertyName (p_options property) of
             None \<Rightarrow> False
           | Some c \<Rightarrow> c \<noteq> [] \<and> truthy (dget setMap c))))"

text \<open>The body of the \<^verbatim>\<open>forEach\<close> for one property: what it appends to \<open>result\<close>.\<close>

definition chain_property :: "dict \<Rightarrow> bool \<Rightarrow> property \<Rightarrow> step list \<Rightarrow> step list" where
  "chain_property setMap isNew property result =
     (let result = (if isTransformable property then result @ [Transform property] else result);
          result = (if hash_applies property setMap then result @ [Hash property] else result);
          result = (if default_applies property setMap isNew then result @ [Default property]
                    else result)
      in result)"

definition chain :: "(string \<times> property) list \<Rightarrow> dict \<Rightarrow> bool \<Rightarrow> step list" where
  "chain properties setMap isNew = fold (chain_property setMap isNew) (map snd properties) []"

text \<open>
  One callback, run on the set-map as it is by then. The transform is called through
  the injector with the set-map as the source of its arguments.
\<close>

fun run_step :: "step \<Rightarrow> dict \<Rightarrow> dict" where
  "run_step (Transform property) setMap =
     (case transformMethod (p_options property) of
        None \<Rightarrow> setMap
      | Some f \<Rightarrow> (let v = f setMap
                   in if v \<noteq> JUndefined then dset setMap (p_name property) v else setMap))"
| "run_step (Hash property) setMap =
     (case hashMethod (p_options property) of
        None \<Rightarrow> setMap
      | Some f \<Rightarrow> dset setMap (p_name property) (f setMap))"
| "run_step (Default property) setMap =
     (case defaultValue (p_options property) of
        None \<Rightarrow> setMap
      | Some v \<Rightarrow> dset setMap (p_name property) v)"

definition priv_transformSetMap ::
  "string \<Rightarrow> dict \<Rightarrow> bool \<Rightarrow> world \<Rightarrow> dict outcome \<times> world" where
  "priv_transformSetMap n setMap isNew w =
     (case getAllProperties n w of
        (Returns properties, w') \<Rightarrow>
          (Resolves (fold run_step (chain properties setMap isNew) setMap), w')
      | (Throws e, w') \<Rightarrow> (Throws e, w')
      | (_, w') \<Rightarrow> (Throws TypeError, w'))"








section \<open>Model instances and the folding of rows\<close>

text \<open>
  Modelled from the spec: ModelInstance (section 3), "ownerModel, rowId, fieldValues,
  isNew, isPartial, isShallow"; \<^verbatim>\<open>lib/modules/models/model-instance.js\<close> is not
  part of the sources. An instance holds the arguments model.js passes to the
  constructor: the model, the row, the changes, the id, the hook name, isPartial,
  isShallow and the private map. \<open>i_consumed\<close> are the rows folded into the instance
  after the one it was built from.
\<close>

record 'id model_instance =
  i_model :: string
  i_row :: "'id row option"
  i_changes :: "dict option"
  i_id :: 'id
  i_hookName :: "string option"
  i_isPartial :: bool
  i_isShallow :: jsval
  i_privateMap :: jsval
  i_consumed :: "'id row list"

definition new_ModelInstance ::
  "string \<Rightarrow> 'id row option \<Rightarrow> dict option \<Rightarrow> 'id \<Rightarrow> string option \<Rightarrow> bool \<Rightarrow> jsval \<Rightarrow> jsval
   \<Rightarrow> 'id model_instance" where
  "new_ModelInstance model row changes rowId hookName isPartial isShallow privateMap =
     \<lparr>i_model = model, i_row = row, i_changes = changes, i_id = rowId, i_hookName = hookName,
      i_isPartial = isPartial, i_isShallow = isShallow, i_privateMap = privateMap,
      i_consumed = []\<rparr>"

text \<open>
  Modelled from the spec: ModelInstance.consumeRow, from "consecutive rows sharing the
  parent id are folded (consumed) into a single instance's association collection". A
  row with the instance's id is taken into the instance (the result is the instance
  after the call); any other row is refused.
\<close>

definition consumeRow :: "'id model_instance \<Rightarrow> 'id row \<Rightarrow> 'id model_instance option" where
  "consumeRow instance row =
     (if row_id row = i_id instance
      then Some (instance\<lparr>i_consumed := i_consumed instance @ [row]\<rparr>)
      else None)"

text \<open>All rows an instance holds: the one it was built from and those it consumed.\<close>

definition instance_rows :: "'id model_instance \<Rightarrow> 'id row list" where
  "instance_rows instance =
     (case i_row instance of None \<Rightarrow> [] | Some r \<Rightarrow> [r]) @ i_consumed instance"

text \<open>
  \<^verbatim>\<open>_createModelInstances\<close>, model.js lines 1306 to 1324. The variable
  \<^verbatim>\<open>instance\<close> is \<^verbatim>\<open>null\<close> or the object pushed last on \<^verbatim>\<open>instances\<close>, and
  \<^verbatim>\<open>consumeRow\<close> changes that object in place: here the last element of the list is
  replaced.
\<close>

fun fold_rows ::
  "string \<Rightarrow> string option \<Rightarrow> bool \<Rightarrow> jsval \<Rightarrow> jsval \<Rightarrow> 'id row list \<Rightarrow> 'id model_instance list
   \<Rightarrow> 'id model_instance list" where
  "fold_rows self hookName isPartial isShallow privateMap [] instances = instances"
| "fold_rows self hookName isPartial isShallow privateMap (row # rows) instances =
     (case (if instances = [] then None else consumeRow (last instances) row) of
        Some instance \<Rightarrow>
          fold_rows self hookName isPartial isShallow privateMap rows (butlast instances @ [instance])
      | None \<Rightarrow>
          fold_rows self hookName isPartial isShallow privateMap rows
            (instances @ [new_ModelInstance self (Some row) None (row_id row) hookName isPartial
                            isShallow privateMap]))"

definition priv_createModelInstances ::
  "string \<Rightarrow> 'id row list \<Rightarrow> string option \<Rightarrow> bool \<Rightarrow> jsval \<Rightarrow> jsval \<Rightarrow> 'id model_instance list" where
  "priv_createModelInstances self rows hookName isPartial isShallow privateMap =
     fold_rows self hookName isPartial isShallow privateMap rows []"

text \<open>Join rows of two parents, the children in the other columns.\<close>

definition join_row :: "nat \<Rightarrow> string \<Rightarrow> nat row" where
  "join_row parent child = \<lparr>row_id = parent, row_columns = [(''child'', JStr child)]\<rparr>"

section \<open>Resolving properties and where-maps\<close>

text \<open>
  \<^verbatim>\<open>keyPath.split('.')\<close>: the pieces between the dots; the empty string gives one
  empty piece. \<^verbatim>\<open>split('.', 2)\<close> keeps the first two pieces.
\<close>

fun split_on :: "char \<Rightarrow> string \<Rightarrow> string list" where
  "split_on c [] = [[]]"
| "split_on c (x # xs) =
     (if x = c then [] # split_on c xs
      else (case split_on c xs of
              [] \<Rightarrow> [[x]]
            | s # ss \<Rightarrow> (x # s) # ss))"

lemma split_on_nonempty: "split_on c k \<noteq> []"
  by (induction k) (simp_all split: list.splits)

lemma split_on_length:
  "sum_list (map length (split_on c k)) + length (split_on c k) = Suc (length k)"
proof (induction k)
  case Nil
  then show ?case by simp
next
  case (Cons x xs)
  obtain s ss where sp: "split_on c xs = s # ss"
    using split_on_nonempty[of c xs] by (cases "split_on c xs") auto
  show ?case using Cons sp by simp
qed

lemma piece_le_sum: "i < length xs \<Longrightarrow> length (xs ! i) \<le> sum_list (map length xs)"
proof (induction xs arbitrary: i)
  case Nil
  then show ?case by simp
next
  case (Cons a xs)
  show ?case
  proof (cases i)
    case 0
    then show ?thesis by simp
  next
    case (Suc j)
    then have "length (xs ! j) \<le> sum_list (map length xs)" using Cons by simp
    then show ?thesis using Suc by simp
  qed
qed

lemma split_on_piece_shorter:
  assumes "1 < length (split_on c k)" "i < length (split_on c k)"
  shows "length (split_on c k ! i) < length k"
  using piece_le_sum[OF assms(2)] split_on_length[of c k] assms(1) by linarith

text \<open>
  Modelled from the spec: Property.getAssociatedModel, which is not in the sources:
  "every association property has a resolvable target Model". The target and the
  junction model are held by name; a property that is no association has none, and the
  call gives \<^verbatim>\<open>undefined\<close>.
\<close>

definition getAssociatedModel :: "property \<Rightarrow> string option" where
  "getAssociatedModel p = referenceName (p_options p)"

text \<open>
  \<^verbatim>\<open>getProperty\<close>, model.js lines 611 to 641, for a key path that is a string (the
  keys of a where-map are strings, so the branch for other types is never taken). The
  value \<^verbatim>\<open>property\<close> is falsy only when nothing was read. Calling a method on
  \<^verbatim>\<open>undefined\<close>, or \<^verbatim>\<open>isManyToMany\<close> on an inherited member, is a TypeError, and so
  is reading \<^verbatim>\<open>_properties\<close> while it is \<^verbatim>\<open>null\<close>.
\<close>

function getProperty :: "world \<Rightarrow> string \<Rightarrow> string \<Rightarrow> js_error + slot" where
  "getProperty w n keyPath =
     (if keyPath = []
      then Inl (Error None (''Cannot find property with key path '' @ bq @ ''null'' @ bq @
                  '' (or '' @ bq @ ''undefined'' @ bq @ '')''))
      else
        (case m_properties (models w n) of
           None \<Rightarrow> Inl TypeError
         | Some props \<Rightarrow>
            (case read_slot props keyPath of
               Absent \<Rightarrow>
                 (let propertyNames = take 2 (split_on CHR ''.'' keyPath)
                  in if 1 < length propertyNames
                     then (case read_slot props (propertyNames ! 0) of
                             Own firstProperty \<Rightarrow>
                               (case (if isManyToMany firstProperty
                                      then through (p_options firstProperty)
                                      else getAssociatedModel firstProperty) of
                                  None \<Rightarrow> Inl TypeError
                                | Some associatedModel \<Rightarrow>
                                    getProperty w associatedModel (propertyNames ! 1))
                           | _ \<Rightarrow> Inl TypeError)
                     else Inr Absent)
             | found \<Rightarrow> Inr found)))"
  by pat_completeness auto
termination
proof (relation "measure (\<lambda>(w, n, keyPath). length keyPath)")
  show "wf (measure (\<lambda>(w, n, keyPath). length keyPath))" by simp
next
  fix w :: world and n keyPath :: string and props propertyNames
  assume pn: "propertyNames = take 2 (split_on CHR ''.'' keyPath)" and len: "1 < length propertyNames"
  have l2: "1 < length (split_on CHR ''.'' keyPath)" using pn len by simp
  have "propertyNames ! 1 = split_on CHR ''.'' keyPath ! 1" using pn by simp
  then have "length (propertyNames ! 1) < length keyPath"
    using split_on_piece_shorter[OF l2 l2] by simp
  then show "\<And>a b. ((w, b, propertyNames ! 1), w, n, keyPath) \<in> measure (\<lambda>(w, n, keyPath). length keyPath)"
    by simp
qed

declare getProperty.simps [simp del]

text \<open>A key that \<^verbatim>\<open>_transformWhereMap\<close> passes through: longer than one character and
  starting with the operator sigil.\<close>

definition is_operator :: "string \<Rightarrow> bool" where
  "is_operator propertyName = (1 < length propertyName \<and> hd propertyName = CHR ''$'')"

text \<open>
  \<^verbatim>\<open>Object.keys(selectMap || {}).forEach\<close>: every entry is written into the map (the
  keys of what a select hook returns are taken to differ from \<^verbatim>\<open>__proto__\<close>).
\<close>

definition merge_into :: "dict \<Rightarrow> dict \<Rightarrow> dict" where
  "merge_into selectMap m = fold (\<lambda>kv acc. dset acc (fst kv) (snd kv)) selectMap m"

definition not_found_error :: "string \<Rightarrow> string \<Rightarrow> js_error" where
  "not_found_error propertyName modelName =
     Error None (''Cannot find property '' @ bq @ propertyName @ bq @ '' on '' @ bq @ modelName @ bq)"

definition hash_query_error :: "string \<Rightarrow> js_error" where
  "hash_query_error propertyName =
     Error None (''Property '' @ bq @ propertyName @ bq @
       '' contains a hash method. It is not possible to query on a hash method directly.'')"

text \<open>
  The loop of \<^verbatim>\<open>_transformWhereMap\<close>, model.js lines 1175 to 1199, over the entries
  of the where-map; \<open>m\<close> is the map built so far. An exception leaves the loop.
\<close>

fun transform_entries :: "world \<Rightarrow> string \<Rightarrow> dict \<Rightarrow> dict \<Rightarrow> js_error + dict" where
  "transform_entries w n [] m = Inr m"
| "transform_entries w n ((propertyName, v) # rest) m =
     (if is_operator propertyName
      then transform_entries w n rest (dset m propertyName v)
      else
        (case getProperty w n propertyName of
           Inl e \<Rightarrow> Inl e
         | Inr Absent \<Rightarrow> Inl (not_found_error propertyName (m_name (models w n)))
         | Inr Inherited \<Rightarrow> Inl TypeError
         | Inr (Own property) \<Rightarrow>
             if isSelectable property
             then (case selectMethod (p_options property) of
                     None \<Rightarrow> Inl TypeError
                   | Some select \<Rightarrow>
                       transform_entries w n rest
                         (merge_into (case select v of None \<Rightarrow> [] | Some selectMap \<Rightarrow> selectMap) m))
             else if hashMethod (p_options property) \<noteq> None
             then Inl (hash_query_error propertyName)
             else transform_entries w n rest (dset m propertyName v)))"

text \<open>\<^verbatim>\<open>_transformWhereMap\<close>, model.js lines 1171 to 1202.\<close>

definition priv_transformWhereMap :: "world \<Rightarrow> string \<Rightarrow> dict \<Rightarrow> js_error + dict" where
  "priv_transformWhereMap w n whereMap = transform_entries w n whereMap []"

text \<open>
  \<^verbatim>\<open>Object.keys\<close> of the value handed in as a where-map, with the values: the
  entries of a dictionary, the indices of an array, nothing for a function; on anything
  else ECMAScript 5 throws a TypeError.
\<close>

function dec :: "nat \<Rightarrow> string" where
  "dec i = (if i < 10 then [''0123456789'' ! i] else dec (i div 10) @ [''0123456789'' ! (i mod 10)])"
  by pat_completeness auto
termination
  by (relation "measure (\<lambda>i. i)") auto

declare dec.simps [simp del]

definition entries_of :: "jsval \<Rightarrow> js_error + dict" where
  "entries_of v =
     (case v of
        JObj d \<Rightarrow> Inr d
      | JArr xs \<Rightarrow> Inr (zip (map dec [0..<length xs]) xs)
      | JFunction \<Rightarrow> Inr []
      | _ \<Rightarrow> Inl TypeError)"

text \<open>\<^verbatim>\<open>whereMap || {}\<close>.\<close>

definition or_empty :: "jsval \<Rightarrow> jsval" where
  "or_empty v = (if truthy v then v else JObj [])"

section \<open>The operations of a model\<close>

text \<open>
  The options argument of \<^verbatim>\<open>find\<close>, \<^verbatim>\<open>update\<close> and \<^verbatim>\<open>remove\<close>: left out of
  the call (\<open>ONone\<close>), passed as \<^verbatim>\<open>undefined\<close> or as \<^verbatim>\<open>null\<close>, an object
  written at the call that nobody else holds, or an object of the caller, by its address.
\<close>

datatype omap = ONone | OUndefined | ONull | OLit dict | ORef nat

text \<open>
  \<^verbatim>\<open>optionsMap || {}\<close>, a read \<^verbatim>\<open>options.key\<close>, and a write
  \<^verbatim>\<open>options.key = v\<close>. Every method reads and writes what \<^verbatim>\<open>optionsMap || {}\<close>
  gave, which is an object.
\<close>

definition options_or_empty :: "omap \<Rightarrow> omap" where
  "options_or_empty optionsMap =
     (case optionsMap of
        ONone \<Rightarrow> OLit []
      | OUndefined \<Rightarrow> OLit []
      | ONull \<Rightarrow> OLit []
      | _ \<Rightarrow> optionsMap)"

definition oget :: "world \<Rightarrow> omap \<Rightarrow> string \<Rightarrow> jsval" where
  "oget w options key =
     (case options of
        OLit d \<Rightarrow> dget d key
      | ORef a \<Rightarrow> dget (heap w a) key
      | _ \<Rightarrow> JUndefined)"

definition oset :: "omap \<Rightarrow> string \<Rightarrow> jsval \<Rightarrow> world \<Rightarrow> omap \<times> world" where
  "oset options key v w =
     (case options of
        OLit d \<Rightarrow> (OLit (dset d key v), w)
      | ORef a \<Rightarrow> (ORef a, w\<lparr>heap := (heap w)(a := dset (heap w a) key v)\<rparr>)
      | _ \<Rightarrow> (options, w))"

text \<open>
  \<^verbatim>\<open>arguments\<close> holds the arguments a call was made with, not the parameters of the
  function: an argument that was left out is no element of it. \<^verbatim>\<open>find\<close>,
  \<^verbatim>\<open>findOne\<close>, \<^verbatim>\<open>update\<close> and \<^verbatim>\<open>remove\<close> are called here with their where-map
  (\<^verbatim>\<open>update\<close> also with its set-map) and with or without the options, so the options
  are the only argument that can be missing; this is what they add to
  \<^verbatim>\<open>arguments\<close>. (\<^verbatim>\<open>find\<close> has a third parameter that it never reads; it is not
  passed.)
\<close>

definition omap_arg :: "omap \<Rightarrow> arg list" where
  "omap_arg optionsMap =
     (case optionsMap of
        ONone \<Rightarrow> []
      | OUndefined \<Rightarrow> [AVal JUndefined]
      | ONull \<Rightarrow> [AVal JNull]
      | OLit d \<Rightarrow> [AVal (JObj d)]
      | ORef a \<Rightarrow> [ARef a])"

text \<open>
  A parameter handed on to another method is an argument of that call: one that was left
  out is handed on as \<^verbatim>\<open>undefined\<close>.
\<close>

definition handed_on :: "omap \<Rightarrow> omap" where
  "handed_on options = (case options of ONone \<Rightarrow> OUndefined | _ \<Rightarrow> options)"

text \<open>
  Modelled from the spec: Migration.addTask, which is not in the sources: it
  "registers {model, operation, args} onto the migration's task queue and returns that
  queued-task handle". The handle is the position of the task among the calls the
  migration has received. The operation is what
  \<^verbatim>\<open>utils.getMethodName(arguments.callee, Model.prototype)\<close> finds: the name under which
  the running function is stored on the prototype. The arguments are the copy of
  \<^verbatim>\<open>arguments\<close> that every method makes before it calls \<^verbatim>\<open>addTask\<close>.
\<close>

definition addTask :: "string \<Rightarrow> string \<Rightarrow> arg list \<Rightarrow> world \<Rightarrow> 'a outcome \<times> world" where
  "addTask n operation args w =
     (Queued (length (migration w)),
      w\<lparr>migration := migration w @
           [AddTask \<lparr>task_model = n, task_operation = operation, task_args = args\<rparr>]\<rparr>)"

text \<open>
  A call on \<^verbatim>\<open>this._table\<close>: it is recorded and answered by the datastore. The
  callers check first that the table is set (a call on \<^verbatim>\<open>null\<close> is a TypeError).
\<close>

definition call_table :: "string \<Rightarrow> table_call \<Rightarrow> world \<Rightarrow> (js_error + db_result) \<times> world" where
  "call_table n c w = (db w n c, w\<lparr>datastore := datastore w @ [(n, c)]\<rparr>)"

text \<open>
  Modelled from the spec: what \<^verbatim>\<open>then\<close> gives on the handle of a queued task
  (Migration.addTask "returns that queued-task handle instead of a result"): there is
  no result to pass to the callback, and the outcome stays the queued task. The other
  cases are \<^verbatim>\<open>promise.then(f)\<close> of Q for a callback that returns a value or throws:
  a rejection is passed on, and an exception of the call that was to give the promise
  has already left the method.
\<close>

fun then_do :: "'a outcome \<times> world \<Rightarrow> ('a \<Rightarrow> js_error + 'b) \<Rightarrow> 'b outcome \<times> world" where
  "then_do (Resolves v, w) f = (case f v of Inl e \<Rightarrow> (Rejects e, w) | Inr r \<Rightarrow> (Resolves r, w))"
| "then_do (Returns v, w) f = (case f v of Inl e \<Rightarrow> (Rejects e, w) | Inr r \<Rightarrow> (Resolves r, w))"
| "then_do (Rejects e, w) f = (Rejects e, w)"
| "then_do (Throws e, w) f = (Throws e, w)"
| "then_do (Queued h, w) f = (Queued h, w)"

text \<open>The promise of a table call, as an outcome.\<close>

definition table_promise :: "string \<Rightarrow> table_call \<Rightarrow> world \<Rightarrow> db_result outcome \<times> world" where
  "table_promise n c w =
     (case call_table n c w of
        (Inl e, w') \<Rightarrow> (Rejects e, w')
      | (Inr r, w') \<Rightarrow> (Resolves r, w'))"

text \<open>\<^verbatim>\<open>rows.forEach\<close> on what the datastore resolved with.\<close>

definition rows_of :: "db_result \<Rightarrow> js_error + jsval row list" where
  "rows_of r = (case r of Rows rows \<Rightarrow> Inr rows | Raw v \<Rightarrow> Inl TypeError)"

text \<open>The head of a list of instances, or \<^verbatim>\<open>null\<close>.\<close>

definition first_or_null :: "'a list \<Rightarrow> 'a option" where
  "first_or_null instances = (if instances \<noteq> [] then Some (hd instances) else None)"

text \<open>
  \<^verbatim>\<open>find\<close>, model.js lines 1279 to 1297. The instances are those of
  \<^verbatim>\<open>_createModelInstances(rows, null, false, options.isShallow)\<close>.
\<close>

definition find_m ::
  "string \<Rightarrow> jsval \<Rightarrow> omap \<Rightarrow> world \<Rightarrow> jsval model_instance list outcome \<times> world" where
  "find_m n whereMap optionsMap w =
     (if m_activeMigration (models w n)
      then addTask n ''find'' (AVal whereMap # omap_arg optionsMap) w
      else
        (let options = options_or_empty optionsMap
         in case entries_of (or_empty whereMap) of
              Inl e \<Rightarrow> (Throws e, w)
            | Inr entries \<Rightarrow>
               (case priv_transformWhereMap w n entries of
                  Inl e \<Rightarrow> (Throws e, w)
                | Inr where' \<Rightarrow>
                   if \<not> m_table (models w n) then (Throws TypeError, w)
                   else then_do
                          (table_promise n
                             (TSelect where' (oget w options ''limit'') (oget w options ''skip'')
                                (oget w options ''orderBy'') (oget w options ''groupBy'')
                                (oget w options ''select'') (oget w options ''associations'')
                                (oget w options ''autoFetchDepth'')) w)
                          (\<lambda>r. case rows_of r of
                                 Inl e \<Rightarrow> Inl e
                               | Inr rows \<Rightarrow>
                                   Inr (priv_createModelInstances n rows None False
                                          (oget w options ''isShallow'') JUndefined)))))"

text \<open>\<^verbatim>\<open>findOne\<close>, model.js lines 1333 to 1354.\<close>

definition findOne ::
  "string \<Rightarrow> jsval \<Rightarrow> omap \<Rightarrow> world \<Rightarrow> jsval model_instance option outcome \<times> world" where
  "findOne n whereMap optionsMap w =
     (if m_activeMigration (models w n)
      then addTask n ''findOne'' (AVal whereMap # omap_arg optionsMap) w
      else
        (case oset (options_or_empty optionsMap) ''limit'' (JNum 1) w of
           (options, w1) \<Rightarrow>
             then_do (find_m n whereMap options w1) (\<lambda>instances. Inr (first_or_null instances))))"

text \<open>
  \<^verbatim>\<open>getOne\<close>, model.js lines 953 to 968; it calls
  \<^verbatim>\<open>this.findOne(where, options)\<close> with both arguments, and the \<^verbatim>\<open>catch\<close> throws
  the error on.
\<close>

definition getOne ::
  "string \<Rightarrow> jsval \<Rightarrow> omap \<Rightarrow> world \<Rightarrow> jsval model_instance outcome \<times> world" where
  "getOne n where' options w =
     then_do (findOne n where' (handed_on options) w)
       (\<lambda>model. case model of
                  Some instance \<Rightarrow> Inr instance
                | None \<Rightarrow> Inl (Error (Some 404) ''Not Found''))"

text \<open>\<^verbatim>\<open>typeof v == 'object'\<close>.\<close>

fun is_object :: "jsval \<Rightarrow> bool" where
  "is_object JNull = True"
| "is_object (JArr xs) = True"
| "is_object (JObj d) = True"
| "is_object v = False"

text \<open>
  The set-map argument of \<^verbatim>\<open>update\<close>: a dictionary, or \<^verbatim>\<open>undefined\<close> or
  \<^verbatim>\<open>null\<close> passed in its place; the argument it is in \<^verbatim>\<open>arguments\<close>, and
  \<^verbatim>\<open>setMap || {}\<close>.
\<close>

datatype smap = SUndefined | SNull | SDict dict

definition dict_arg :: "smap \<Rightarrow> arg" where
  "dict_arg setMap =
     (case setMap of
        SUndefined \<Rightarrow> AVal JUndefined
      | SNull \<Rightarrow> AVal JNull
      | SDict d \<Rightarrow> AVal (JObj d))"

definition set_or_empty :: "smap \<Rightarrow> dict" where
  "set_or_empty setMap = (case setMap of SDict d \<Rightarrow> d | _ \<Rightarrow> [])"

text \<open>\<^verbatim>\<open>update\<close>, model.js lines 875 to 902.\<close>

definition update_m ::
  "string \<Rightarrow> jsval \<Rightarrow> smap \<Rightarrow> omap \<Rightarrow> world \<Rightarrow> jsval model_instance list outcome \<times> world" where
  "update_m n whereMap setMap optionsMap w =
     (if m_activeMigration (models w n)
      then addTask n ''update'' (AVal whereMap # dict_arg setMap # omap_arg optionsMap) w
      else
        (case (if is_object whereMap
               then (case entries_of (or_empty whereMap) of
                       Inl e \<Rightarrow> Inl e
                     | Inr entries \<Rightarrow> priv_transformWhereMap w n entries)
               else Inr [(''id'', whereMap)]) of
           Inl e \<Rightarrow> (Throws e, w)
         | Inr where' \<Rightarrow>
            (let options = options_or_empty optionsMap
             in case priv_transformSetMap n (set_or_empty setMap) False w of
                  (Resolves set', w1) \<Rightarrow>
                    if \<not> m_table (models w1 n) then (Rejects TypeError, w1)
                    else then_do
                           (table_promise n
                              (TUpdate where' set' (oget w1 options ''limit'')
                                 (oget w1 options ''skip'') (oget w1 options ''orderBy'')) w1)
                           (\<lambda>r. case rows_of r of
                                  Inl e \<Rightarrow> Inl e
                                | Inr rows \<Rightarrow>
                                    Inr (priv_createModelInstances n rows (Some ''afterUpdate'') True
                                           JUndefined JUndefined))
                | (Throws e, w1) \<Rightarrow> (Throws e, w1)
                | (Rejects e, w1) \<Rightarrow> (Rejects e, w1)
                | (_, w1) \<Rightarrow> (Throws TypeError, w1))))"

text \<open>
  \<^verbatim>\<open>updateOne\<close>, model.js lines 911 to 924. It calls
  \<^verbatim>\<open>this.update(whereMap, setMap, options)\<close> with all three arguments, so a set-map
  left out of \<^verbatim>\<open>updateOne\<close> reaches \<^verbatim>\<open>update\<close> as \<^verbatim>\<open>undefined\<close>.
\<close>

definition updateOne ::
  "string \<Rightarrow> jsval \<Rightarrow> smap \<Rightarrow> omap \<Rightarrow> world
   \<Rightarrow> jsval model_instance option outcome \<times> world" where
  "updateOne n whereMap setMap optionsMap w =
     (case oset (options_or_empty optionsMap) ''limit'' (JNum 1) w of
        (options, w1) \<Rightarrow>
          then_do (update_m n whereMap setMap options w1)
            (\<lambda>modelInstances. Inr (first_or_null modelInstances)))"

text \<open>\<^verbatim>\<open>removeAll\<close>, model.js lines 1019 to 1029.\<close>

definition removeAll_m :: "string \<Rightarrow> arg list \<Rightarrow> world \<Rightarrow> db_result outcome \<times> world" where
  "removeAll_m n args w =
     (if m_activeMigration (models w n) then addTask n ''removeAll'' args w
      else if \<not> m_table (models w n) then (Throws TypeError, w)
      else table_promise n (TRemove [] JUndefined JUndefined JUndefined) w)"

definition remove_without_where :: js_error where
  "remove_without_where =
     Error None (''You are calling Model#remove without a '' @ bq @ ''where'' @ bq @
       '' clause. This will result in removing all instances. This is disabled in Model#remove. Please invoke Model#removeAll instead.'')"

text \<open>\<^verbatim>\<open>remove\<close>, model.js lines 1037 to 1060.\<close>

definition remove_m ::
  "string \<Rightarrow> jsval \<Rightarrow> omap \<Rightarrow> world \<Rightarrow> jsval model_instance list outcome \<times> world" where
  "remove_m n whereMap optionsMap w =
     (if m_activeMigration (models w n)
      then addTask n ''remove'' (AVal whereMap # omap_arg optionsMap) w
      else
        (case entries_of (or_empty whereMap) of
           Inl e \<Rightarrow> (Throws e, w)
         | Inr entries \<Rightarrow>
            (case priv_transformWhereMap w n entries of
               Inl e \<Rightarrow> (Throws e, w)
             | Inr where' \<Rightarrow>
                if where' = [] then (Throws remove_without_where, w)
                else
                  (let options = options_or_empty optionsMap
                   in if \<not> m_table (models w n) then (Throws TypeError, w)
                      else then_do
                             (table_promise n
                                (TRemove where' (oget w options ''limit'') (oget w options ''skip'')
                                   (oget w options ''orderBy'')) w)
                             (\<lambda>r. case rows_of r of
                                    Inl e \<Rightarrow> Inl e
                                  | Inr rows \<Rightarrow>
                                      Inr (priv_createModelInstances n rows None True
                                             JUndefined JUndefined))))))"

text \<open>\<^verbatim>\<open>removeOne\<close>, model.js lines 1062 to 1075.\<close>

definition removeOne ::
  "string \<Rightarrow> jsval \<Rightarrow> omap \<Rightarrow> world \<Rightarrow> jsval model_instance option outcome \<times> world" where
  "removeOne n whereMap optionsMap w =
     (case oset (options_or_empty optionsMap) ''limit'' (JNum 1) w of
        (options, w1) \<Rightarrow>
          then_do (remove_m n whereMap options w1)
            (\<lambda>modelInstances. Inr (first_or_null modelInstances)))"






definition destroy :: "string \<Rightarrow> arg list \<Rightarrow> world \<Rightarrow> db_result outcome \<times> world" where
  "destroy n args w =
     (if m_activeMigration (models w n) then addTask n ''destroy'' args w
      else if \<not> m_table (models w n) then (Throws TypeError, w)
      else table_promise n (TDrop False) w)"




section \<open>Vocabulary for the statements about the operations\<close>


text \<open>The user model with its properties enumerated, and the same under a migration.\<close>

definition name_property :: property where
  "name_property = new_Property ''name'' [String]"

definition users :: model where
  "users = user_model\<lparr>m_properties :=
             Some [(''id'', new_Property ''id'' id_types), (''name'', name_property)]\<rparr>"

definition migrating_users :: model where
  "migrating_users = users\<lparr>m_activeMigration := True\<rparr>"

text \<open>A state whose datastore answers every call with the given rows.\<close>

definition world_rows :: "model \<Rightarrow> jsval row list \<Rightarrow> world" where
  "world_rows m rows = (world_of m)\<lparr>db := (\<lambda>n c. Inr (Rows rows))\<rparr>"

definition user_row :: "jsval row" where
  "user_row = \<lparr>row_id = JStr ''u1'', row_columns = [(''name'', JStr ''Martijn'')]\<rparr>"




section \<open>Access control\<close>

text \<open>
  \<^verbatim>\<open>getAccessControl\<close>, model.js lines 1492 to 1503, returns the model's
  \<^verbatim>\<open>AccessControl\<close> object (\<^verbatim>\<open>access-control.js\<close> is not part of the sources). Its
  callers in model.js read only whether the value is truthy, and an object is.
\<close>

definition getAccessControl :: "model \<Rightarrow> jsval" where
  "getAccessControl self = JObj []"

text \<open>
  The \<^verbatim>\<open>forEach\<close> of lines 1390 to 1399: the actor is stamped on every create-map; a
  create-map that sets the automatic property itself is a bad request.
\<close>

fun stamp_all :: "string \<Rightarrow> jsval \<Rightarrow> dict list \<Rightarrow> js_error + dict list" where
  "stamp_all automatic authenticator [] = Inr []"
| "stamp_all automatic authenticator (createMap # createMaps) =
     (if truthy (dget createMap automatic)
      then Inl (Error (Some 400) ''Cannot set automatic property manually.'')
      else (case stamp_all automatic authenticator createMaps of
              Inl e \<Rightarrow> Inl e
            | Inr rest \<Rightarrow> Inr (dset createMap automatic authenticator # rest)))"

definition no_authenticator_model :: js_error where
  "no_authenticator_model =
     Error None (''Cannot find authenticator model. Did you define an authenticator via '' @ bq @
       ''PropertyTypes#Authenticate'' @ bq @ ''?'')"

text \<open>
  \<^verbatim>\<open>canCreate\<close>, model.js lines 1369 to 1405. \<open>found\<close> is what the promise of
  \<^verbatim>\<open>_findAuthenticator(request)\<close> settles with, \<open>authenticatorModel\<close> whether
  \<^verbatim>\<open>models.getAuthenticator()\<close> gives a model. The callback of \<^verbatim>\<open>spread\<close> receives
  the access-control object as \<^verbatim>\<open>canCreate\<close>.
\<close>

definition canCreate ::
  "model \<Rightarrow> bool \<Rightarrow> dict list \<Rightarrow> 'r option \<Rightarrow> js_error + jsval \<Rightarrow> (bool \<times> dict list) outcome" where
  "canCreate self authenticatorModel createMaps request found =
     (if request = None then Resolves (True, createMaps)
      else
        (case found of
           Inl e \<Rightarrow> Rejects e
         | Inr authenticator \<Rightarrow>
            (let canCreate = getAccessControl self
             in if \<not> truthy canCreate then Rejects (unauthenticatedError authenticator)
                else
                  (case automaticPropertyName self of
                     None \<Rightarrow> Resolves (True, createMaps)
                   | Some automatic \<Rightarrow>
                      if automatic = [] then Resolves (True, createMaps)
                      else if \<not> authenticatorModel then Rejects no_authenticator_model
                      else (case stamp_all automatic authenticator createMaps of
                              Inl e \<Rightarrow> Rejects e
                            | Inr stamped \<Rightarrow> Resolves (True, stamped))))))"

text \<open>
  The decision each handler of the API fixture makes on what the access control
  resolved with (tester.js lines 107 and 142, 167 and 175, 203 and 211, 231 and 239,
  277 and 293, 310 and 318, 336 and 344; lines 253 to 257 decide the same way on the
  instance \<^verbatim>\<open>updateOne\<close> resolved with): when the value is truthy the request goes
  on (\<open>granted\<close> is what that gives), otherwise the callback throws
  \<^verbatim>\<open>unauthenticatedError(authenticator)\<close> and the promise is rejected.
\<close>

definition access_decision :: "jsval \<Rightarrow> jsval \<Rightarrow> 'a outcome \<Rightarrow> 'a outcome" where
  "access_decision can authenticator granted =
     (if truthy can then granted else Rejects (tester_unauthenticatedError authenticator))"

section \<open>Creating instances\<close>

text \<open>
  A promise-returning computation, seen from the datastore: it is settled (rejected or
  fulfilled), or it has issued a call and goes on from the answer. The callbacks Q runs
  between two datastore calls take no part in the order of the calls and are not shown.
\<close>

datatype 'a async =
    Settled "js_error + 'a"
  | Awaits table_call "js_error + db_result \<Rightarrow> 'a async"

text \<open>The argument of \<^verbatim>\<open>create\<close>: an array of create-maps or one create-map.\<close>

datatype fields = Many "dict list" | One dict

text \<open>What \<^verbatim>\<open>create\<close> returns: \<^verbatim>\<open>Q.all\<close> of the promises of the elements, or one promise.\<close>

datatype 'a created = AllOf "'a async list" | Single "'a async"

text \<open>
  \<^verbatim>\<open>create\<close>, model.js lines 1424 to 1433. \<^verbatim>\<open>ModelInstance.save\<close> is not part of the
  sources and is a parameter. \<^verbatim>\<open>fields.map\<close> calls \<^verbatim>\<open>save\<close> on one element after
  the other, in the call of \<^verbatim>\<open>create\<close> itself; each call returns its promise, and
  \<^verbatim>\<open>Q.all\<close> is handed the list of them.
\<close>

definition create ::
  "(jsval model_instance \<Rightarrow> jsval model_instance async) \<Rightarrow> string \<Rightarrow> fields \<Rightarrow> jsval
   \<Rightarrow> jsval model_instance created" where
  "create save n fieldsOrArray privateMap =
     (case fieldsOrArray of
        Many createMaps \<Rightarrow>
          AllOf (map (\<lambda>createMap. save (new_ModelInstance n None (Some createMap) JNull None True
                                           (JBool False) privateMap)) createMaps)
      | One createMap \<Rightarrow>
          Single (save (new_ModelInstance n None (Some createMap) JNull None True
                          (JBool False) privateMap)))"

text \<open>
  The promises of \<^verbatim>\<open>Q.all\<close> as the datastore moves them on: an answer for the call
  of the promise at position \<open>i\<close> is handed to that promise; a settled promise stays.
\<close>

fun feed1 :: "'a async \<Rightarrow> js_error + db_result \<Rightarrow> 'a async" where
  "feed1 (Awaits c k) r = k r"
| "feed1 (Settled s) r = Settled s"

definition feed :: "'a async \<Rightarrow> (js_error + db_result) list \<Rightarrow> 'a async" where
  "feed x answers = fold (\<lambda>r y. feed1 y r) answers x"

definition deliver :: "nat \<times> (js_error + db_result) \<Rightarrow> 'a async list \<Rightarrow> 'a async list" where
  "deliver ir xs = (if fst ir < length xs then xs[fst ir := feed1 (xs ! fst ir) (snd ir)] else xs)"

definition run :: "(nat \<times> (js_error + db_result)) list \<Rightarrow> 'a async list \<Rightarrow> 'a async list" where
  "run schedule xs = fold deliver schedule xs"

text \<open>The answers of a schedule that go to position \<open>i\<close>.\<close>

definition answers_for :: "nat \<Rightarrow> (nat \<times> (js_error + db_result)) list \<Rightarrow> (js_error + db_result) list" where
  "answers_for i schedule = map snd (filter (\<lambda>jr. fst jr = i) schedule)"

text \<open>The calls that have been issued and not answered.\<close>

fun first_call :: "'a async \<Rightarrow> table_call option" where
  "first_call (Awaits c k) = Some c"
| "first_call (Settled s) = None"

definition outstanding :: "'a async list \<Rightarrow> table_call list" where
  "outstanding xs = concat (map (\<lambda>x. case first_call x of None \<Rightarrow> [] | Some c \<Rightarrow> [c]) xs)"

text \<open>
  \<^verbatim>\<open>Q.all\<close> is fulfilled once every promise is, with the values in the order of the
  promises.
\<close>

fun fulfilled_value :: "'a async \<Rightarrow> 'a option" where
  "fulfilled_value (Settled (Inr v)) = Some v"
| "fulfilled_value x = None"

definition all_fulfilled :: "'a async list \<Rightarrow> 'a list option" where
  "all_fulfilled xs =
     (if list_all (\<lambda>x. fulfilled_value x \<noteq> None) xs then Some (map (\<lambda>x. the (fulfilled_value x)) xs)
      else None)"

text \<open>
  Modelled from the spec: ModelInstance.save for a new instance of a model whose
  properties have no hooks: "each instance runs the full set-map transform pipeline
  before insert", and the created instance is that of the row the insert returns.
\<close>

definition save_insert :: "jsval model_instance \<Rightarrow> jsval model_instance async" where
  "save_insert instance =
     Awaits (TInsert (case i_changes instance of None \<Rightarrow> [] | Some changes \<Rightarrow> changes))
       (\<lambda>r. case r of
               Inl e \<Rightarrow> Settled (Inl e)
             | Inr (Rows (row # rows)) \<Rightarrow>
                 Settled (Inr (instance\<lparr>i_row := Some row, i_id := row_id row\<rparr>))
             | Inr _ \<Rightarrow> Settled (Inl TypeError))"

text \<open>Two create-maps and the rows their inserts return.\<close>

definition aart :: dict where
  "aart = [(''name'', JStr ''Aart'')]"

definition bert :: dict where
  "bert = [(''name'', JStr ''Bert'')]"

definition aart_row :: "jsval row" where
  "aart_row = \<lparr>row_id = JStr ''a1'', row_columns = aart\<rparr>"

definition bert_row :: "jsval row" where
  "bert_row = \<lparr>row_id = JStr ''b1'', row_columns = bert\<rparr>"

definition new_instance :: "string \<Rightarrow> dict \<Rightarrow> jsval model_instance" where
  "new_instance n createMap =
     new_ModelInstance n None (Some createMap) JNull None True (JBool False) JUndefined"

section \<open>Verification\<close>

subsection \<open>The implicit id property\<close>

lemma id_not_reserved: "''id'' \<notin> set Model_prototype_names"
  by (simp add: Model_prototype_names_def Object_prototype_names_def)

lemma addProperty_new:
  assumes "m_properties (models w n) = Some ps" "valid_name (p_name p)"
  shows "\<exists>w'. addProperty n p True w = (Returns p, w') \<and>
     m_properties (models w' n) = Some (AList.update (p_name p) p ps) \<and>
     m_fields (models w' n) = m_fields (models w n)"
  using assms
  by (auto simp: addProperty_def valid_name_def put_model_def Let_def)

lemma count_one:
  "distinct (map fst ps) \<Longrightarrow> k \<in> fst ` set ps \<Longrightarrow> length (filter (\<lambda>kv. fst kv = k) ps) = 1"
  by (induction ps) (auto simp: image_iff filter_empty_conv)


lemma p_name_new_Property: "p_name (new_Property k ts) = k"
  by (simp add: new_Property_def)

lemma priv_addMethod_properties:
  "m_properties (models (priv_addMethod n k w) n) = m_properties (models w n)"
  by (simp add: priv_addMethod_def put_model_def Let_def)

lemma enumerate_members_ok:
  assumes "m_properties (models w n) = Some ps"
    and "members_named fs"
  shows "\<exists>w'. enumerate_members n fs w = (Returns (), w') \<and>
           m_properties (models w' n) = Some (fold add_declared fs ps)"
  using assms
proof (induction fs arbitrary: w ps)
  case Nil
  then show ?case by simp
next
  case (Cons kf fs)
  obtain k f where kf: "kf = (k, f)" by (cases kf)
  show ?case
  proof (cases "k \<in> set Model_prototype_names")
    case True
    have "add_declared kf ps = ps" using True kf by (cases f) auto
    then show ?thesis using Cons.IH[of w ps] Cons.prems members_named_def True kf by auto
  next
    case notres: False
    show ?thesis
    proof (cases f)
      case (FArray ts)
      show ?thesis
      proof (cases "ts = []")
        case True
        then show ?thesis using Cons.IH[of w ps] Cons.prems members_named_def notres kf FArray
          by (auto simp: priv_addProperty_def)
      next
        case False
        then have v: "valid_name (p_name (new_Property k ts))"
          using Cons.prems(2) notres kf FArray by (auto simp: p_name_new_Property members_named_def)
        from addProperty_new[OF Cons.prems(1) v]
        obtain w1 where w1: "addProperty n (new_Property k ts) True w = (Returns (new_Property k ts), w1)"
          "m_properties (models w1 n) = Some (AList.update k (new_Property k ts) ps)"
          by (auto simp: p_name_new_Property)
        have "\<exists>w'. enumerate_members n fs w1 = (Returns (), w') \<and>
           m_properties (models w' n) = Some (fold add_declared fs (AList.update k (new_Property k ts) ps))"
          using Cons.IH[OF w1(2)] Cons.prems(2) by (auto simp: members_named_def)
        then show ?thesis using w1 notres kf FArray False
          by (auto simp: priv_addProperty_def)
      qed
    next
      case FFunction
      then show ?thesis
        using Cons.IH[of "priv_addMethod n k w" ps] Cons.prems notres kf members_named_def
        by (auto simp: priv_addMethod_properties)
    next
      case (FValue v)
      then show ?thesis using Cons.IH[of w ps] Cons.prems members_named_def notres kf by auto
    qed
  qed
qed

lemma add_declared_distinct:
  "distinct (map fst ps) \<Longrightarrow> distinct (map fst (add_declared kf ps))"
  by (cases "(kf, ps)" rule: add_declared.cases) (simp_all add: distinct_update)

lemma add_declared_keys: "fst ` set ps \<subseteq> fst ` set (add_declared kf ps)"
  by (cases "(kf, ps)" rule: add_declared.cases) (auto simp: dom_update)

lemma fold_add_declared_distinct:
  "distinct (map fst ps) \<Longrightarrow> distinct (map fst (fold add_declared fs ps))"
  by (induction fs arbitrary: ps) (simp_all add: add_declared_distinct)

lemma fold_add_declared_mono:
  "k \<in> fst ` set ps \<Longrightarrow> k \<in> fst ` set (fold add_declared fs ps)"
proof (induction fs arbitrary: ps)
  case Nil
  then show ?case by simp
next
  case (Cons kf fs)
  have "k \<in> fst ` set (add_declared kf ps)"
    using Cons.prems add_declared_keys[of ps kf] by blast
  from Cons.IH[OF this] show ?case by simp
qed

lemma fold_add_declared_lookup:
  assumes "distinct (map fst fs)"
  shows "map_of (fold add_declared fs ps) k =
     (case map_of fs k of
        Some (FArray ts) \<Rightarrow> if k \<notin> set Model_prototype_names \<and> ts \<noteq> []
                             then Some (new_Property k ts) else map_of ps k
      | _ \<Rightarrow> map_of ps k)"
  using assms
proof (induction fs arbitrary: ps)
  case Nil
  then show ?case by simp
next
  case (Cons kf fs)
  obtain k' f where kf: "kf = (k', f)" by (cases kf)
  have d: "distinct (map fst fs)" and nk: "k' \<notin> fst ` set fs"
    using Cons.prems kf by auto
  have mk: "map_of fs k' = None" using nk by (simp add: map_of_eq_None_iff)
  show ?case
  proof (cases "k = k'")
    case True
    then show ?thesis using Cons.IH[OF d, of "add_declared kf ps"] mk kf
      by (cases f) (auto simp: update_conv')
  next
    case False
    then have "map_of (add_declared kf ps) k = map_of ps k"
      using kf by (cases f) (auto simp: update_conv')
    then show ?thesis using Cons.IH[OF d, of "add_declared kf ps"] False kf
      by (simp split: option.splits field.splits)
  qed
qed


lemma set_update_subset: "set (AList.update k v al) \<subseteq> insert (k, v) (set al)"
  by (induction al) auto

lemma members_named_update:
  assumes "members_named fs" "valid_name k"
  shows "members_named (AList.update k (FArray ts) fs)"
proof -
  have "\<And>kf. kf \<in> set (AList.update k (FArray ts) fs) \<Longrightarrow> kf = (k, FArray ts) \<or> kf \<in> set fs"
    using set_update_subset[of k "FArray ts" fs] by auto
  then show ?thesis using assms
    unfolding members_named_def list_all_iff by fastforce
qed

lemma name_not_reserved: "''name'' \<notin> set Model_prototype_names"
  by (simp add: Model_prototype_names_def Object_prototype_names_def)

lemma valid_name_id: "valid_name ''id''"
  by (simp add: valid_name_def)

text \<open>
  Claim C4, as the code has it. On the first enumeration of a model whose members have
  valid names, when the member \<open>id\<close> was never declared (missing or falsy) or was
  declared with a non-empty list of types, \<^verbatim>\<open>getAllProperties\<close> returns a dictionary
  that holds \<open>id\<close> exactly once and stores it as the model's properties; when \<open>id\<close>
  was never declared, the entry is the implicit property built from
  \<^verbatim>\<open>[UUID, CanUpdate(false)]\<close> during this first enumeration.
\<close>

theorem getAllProperties_id_once:
  assumes first: "m_properties (models w n) = None"
    and wf: "distinct (map fst (m_fields (models w n)))"
    and named: "members_named (m_fields (models w n))"
    and decl: "id_undeclared (models w n) \<or> id_typed (models w n)"
  shows "\<exists>ps w'. getAllProperties n w = (Returns ps, w') \<and> id_count ps = 1 \<and>
           m_properties (models w' n) = Some ps \<and>
           (id_undeclared (models w n) \<longrightarrow> map_of ps ''id'' = Some (new_Property ''id'' id_types))"
proof -
  let ?m = "models w n"
  define this0 where "this0 = ?m\<lparr>m_properties := Some []\<rparr>"
  define this1 where "this1 = (if id_undeclared ?m
      then this0\<lparr>m_fields := AList.update ''id'' (FArray id_types) (m_fields this0),
                 m_properties := Some [(''id'', new_Property ''id'' id_types)]\<rparr>
      else this0)"
  define ps0 where "ps0 = (if id_undeclared ?m then [(''id'', new_Property ''id'' id_types)] else [])"
  define fs where "fs = m_fields this1"
  define w1 where "w1 = put_model n this1 w"
  have p1: "m_properties (models w1 n) = Some ps0"
    by (simp add: w1_def put_model_def this1_def this0_def ps0_def)
  have fs_eq: "fs = (if id_undeclared ?m then AList.update ''id'' (FArray id_types) (m_fields ?m)
                      else m_fields ?m)"
    by (simp add: fs_def this1_def this0_def)
  have named1: "members_named fs"
    using named members_named_update[OF named valid_name_id] by (simp add: fs_eq)
  have wf1: "distinct (map fst fs)"
    using wf by (simp add: fs_eq distinct_update)
  from enumerate_members_ok[OF p1 named1]
  obtain w2 where w2: "enumerate_members n fs w1 = (Returns (), w2)"
    "m_properties (models w2 n) = Some (fold add_declared fs ps0)" by blast
  let ?ps = "fold add_declared fs ps0"
  have run: "getAllProperties n w = (Returns ?ps, w2)"
  proof (cases "id_undeclared ?m")
    case True
    then have "fs = AList.update ''id'' (FArray id_types) (m_fields ?m)"
      and "w1 = put_model n (?m\<lparr>m_fields := AList.update ''id'' (FArray id_types) (m_fields ?m),
                 m_properties := Some [(''id'', new_Property ''id'' id_types)]\<rparr>) w"
      by (simp_all add: fs_eq w1_def this1_def this0_def)
    with w2 first True show ?thesis
      unfolding getAllProperties_def by (auto simp: Let_def id_undeclared_def split: option.splits)
  next
    case False
    then have "fs = m_fields ?m" and "w1 = put_model n (?m\<lparr>m_properties := Some []\<rparr>) w"
      by (simp_all add: fs_eq w1_def this1_def this0_def)
    with w2 first False show ?thesis
      unfolding getAllProperties_def by (auto simp: Let_def id_undeclared_def split: option.splits)
  qed
  have d0: "distinct (map fst ps0)" by (simp add: ps0_def)
  have dist: "distinct (map fst ?ps)" by (rule fold_add_declared_distinct[OF d0])
  have look: "map_of ?ps ''id'' =
     (case map_of fs ''id'' of
        Some (FArray ts) \<Rightarrow> if ''id'' \<notin> set Model_prototype_names \<and> ts \<noteq> []
                             then Some (new_Property ''id'' ts) else map_of ps0 ''id''
      | _ \<Rightarrow> map_of ps0 ''id'')"
    by (rule fold_add_declared_lookup[OF wf1])
  have und: "id_undeclared ?m \<Longrightarrow> map_of ?ps ''id'' = Some (new_Property ''id'' id_types)"
    using look by (simp add: fs_eq update_conv' id_not_reserved id_types_def)
  have typed: "\<not> id_undeclared ?m \<Longrightarrow> \<exists>p. map_of ?ps ''id'' = Some p"
    using look decl by (auto simp: fs_eq id_typed_def id_not_reserved split: option.splits field.splits)
  have "\<exists>p. map_of ?ps ''id'' = Some p" using und typed by blast
  then have "''id'' \<in> fst ` set ?ps" by (metis map_of_eq_None_iff option.distinct(1))
  then have "id_count ?ps = 1" unfolding id_count_def by (rule count_one[OF dist])
  then show ?thesis using run w2(2) und by blast
qed

text \<open>The hypotheses hold for a model that declares only \<open>name\<close>.\<close>

theorem getAllProperties_id_once_witness:
  "\<exists>ps w'. getAllProperties ''User'' (world_of user_model) = (Returns ps, w') \<and> id_count ps = 1 \<and>
     map_of ps ''id'' = Some (new_Property ''id'' id_types)"
proof -
  let ?w = "world_of user_model"
  have h1: "m_properties (models ?w ''User'') = None"
    by (simp add: world_of_def user_model_def blank_model_def)
  have h2: "distinct (map fst (m_fields (models ?w ''User'')))"
    by (simp add: world_of_def user_model_def blank_model_def)
  have h3: "members_named (m_fields (models ?w ''User''))"
    by (simp add: world_of_def user_model_def blank_model_def members_named_def valid_name_def)
  have u: "id_undeclared (models ?w ''User'')"
    by (simp add: world_of_def user_model_def blank_model_def id_undeclared_def)
  then have h4: "id_undeclared (models ?w ''User'') \<or> id_typed (models ?w ''User'')" ..
  from getAllProperties_id_once[OF h1 h2 h3 h4] u show ?thesis by blast
qed

text \<open>
  Claim C4 as stated fails for a model that declares \<^verbatim>\<open>id\<close> as an empty array:
  the member is truthy, so no implicit property is made, and \<^verbatim>\<open>_addProperty\<close>
  ignores an empty list ("Even if it's set to something like [] (which gets ignored)",
  lines 660 and 661). The dictionary returned has no \<open>id\<close>.
\<close>

theorem getAllProperties_empty_id_counterexample:
  "fst (getAllProperties ''User'' (world_of empty_id_model)) =
     Returns [(''name'', new_Property ''name'' [String])] \<and>
   id_count [(''name'', new_Property ''name'' [String])] = 0"
  by (simp add: getAllProperties_def world_of_def empty_id_model_def blank_model_def put_model_def
     priv_addProperty_def addProperty_def id_not_reserved name_not_reserved new_Property_def
     isAssociation_def String_def no_options_def Let_def id_count_def)

subsection \<open>The set-map pipeline\<close>




lemma dget_dset: "dget (dset m k v) k' = (if k' = k then v else dget m k')"
  by (simp add: dget_def dset_def update_conv')








lemma inherited_truthy: "truthy (inherited_member k)"
  by (simp add: inherited_member_def)





subsection \<open>Folding join rows into instances\<close>

lemma fold_rows_last:
  "fold_rows s h ip sh pm rows (acc @ [cur]) = acc @ fold_rows s h ip sh pm rows [cur]"
proof (induction rows arbitrary: acc cur)
  case Nil
  then show ?case by simp
next
  case (Cons r rows)
  show ?case
  proof (cases "consumeRow cur r")
    case None
    have "fold_rows s h ip sh pm (r # rows) (acc @ [cur]) =
        fold_rows s h ip sh pm rows ((acc @ [cur]) @ [new_ModelInstance s (Some r) None (row_id r) h ip sh pm])"
      using None by simp
    also have "\<dots> = (acc @ [cur]) @ fold_rows s h ip sh pm rows [new_ModelInstance s (Some r) None (row_id r) h ip sh pm]"
      by (rule Cons.IH)
    finally have a: "fold_rows s h ip sh pm (r # rows) (acc @ [cur]) =
       acc @ cur # fold_rows s h ip sh pm rows [new_ModelInstance s (Some r) None (row_id r) h ip sh pm]"
      by simp
    have "fold_rows s h ip sh pm (r # rows) [cur] =
        fold_rows s h ip sh pm rows ([cur] @ [new_ModelInstance s (Some r) None (row_id r) h ip sh pm])"
      using None by simp
    also have "\<dots> = [cur] @ fold_rows s h ip sh pm rows [new_ModelInstance s (Some r) None (row_id r) h ip sh pm]"
      by (rule Cons.IH)
    finally show ?thesis using a by simp
  next
    case (Some cur')
    then show ?thesis using Cons.IH[of acc cur'] by simp
  qed
qed

lemma fold_rows_step:
  "fold_rows s h ip sh pm (r # rows) [cur] =
     (if row_id r = i_id cur
      then fold_rows s h ip sh pm rows [cur\<lparr>i_consumed := i_consumed cur @ [r]\<rparr>]
      else cur # fold_rows s h ip sh pm rows [new_ModelInstance s (Some r) None (row_id r) h ip sh pm])"
  using fold_rows_last[of s h ip sh pm rows "[cur]" "new_ModelInstance s (Some r) None (row_id r) h ip sh pm"]
  by (simp add: consumeRow_def)

lemma fold_rows_ids:
  "map i_id (fold_rows s h ip sh pm rows [cur]) = remdups_adj (i_id cur # map row_id rows)"
proof (induction rows arbitrary: cur)
  case Nil
  then show ?case by simp
next
  case (Cons r rows)
  show ?case
  proof (cases "row_id r = i_id cur")
    case True
    then show ?thesis
      using Cons.IH[of "cur\<lparr>i_consumed := i_consumed cur @ [r]\<rparr>"]
      by (simp add: fold_rows_step del: fold_rows.simps)
  next
    case False
    then show ?thesis
      using Cons.IH[of "new_ModelInstance s (Some r) None (row_id r) h ip sh pm"]
      by (simp add: fold_rows_step new_ModelInstance_def del: fold_rows.simps)
  qed
qed

lemma sorted_distinct_adj:
  fixes xs :: "'a::linorder list"
  shows "sorted xs \<Longrightarrow> distinct_adj xs \<Longrightarrow> distinct xs"
proof (induction xs rule: induct_list012)
  case (3 x y zs)
  then have "x < y" and "\<forall>z \<in> set zs. y \<le> z" by auto
  then have "x \<notin> set (y # zs)" by auto
  moreover have "distinct (y # zs)" using 3 by simp
  ultimately show ?case by simp
qed simp_all

lemma sorted_remdups_adj_distinct:
  fixes xs :: "'a::linorder list"
  shows "sorted xs \<Longrightarrow> distinct (remdups_adj xs)"
  by (rule sorted_distinct_adj) simp_all

lemma fold_rows_rows:
  fixes cur :: "('id::linorder) model_instance"
  assumes "sorted (i_id cur # map row_id rows)"
    and "inst \<in> set (fold_rows s h ip sh pm rows [cur])"
  shows "instance_rows inst =
           (if i_id inst = i_id cur then instance_rows cur else []) @
           filter (\<lambda>r. row_id r = i_id inst) rows"
  using assms
proof (induction rows arbitrary: cur)
  case Nil
  then show ?case by simp
next
  case (Cons r rows)
  show ?case
  proof (cases "row_id r = i_id cur")
    case True
    let ?cur = "cur\<lparr>i_consumed := i_consumed cur @ [r]\<rparr>"
    have s: "sorted (i_id ?cur # map row_id rows)" using Cons.prems(1) by simp
    have m: "inst \<in> set (fold_rows s h ip sh pm rows [?cur])"
      using Cons.prems(2) True by (simp add: fold_rows_step del: fold_rows.simps)
    have r: "instance_rows ?cur = instance_rows cur @ [r]" by (simp add: instance_rows_def)
    from Cons.IH[OF s m] show ?thesis using True r by auto
  next
    case False
    let ?new = "new_ModelInstance s (Some r) None (row_id r) h ip sh pm"
    have lt: "i_id cur < row_id r" using Cons.prems(1) False by auto
    have ge: "\<forall>x \<in> set rows. row_id r \<le> row_id x" using Cons.prems(1) by auto
    have mem: "inst = cur \<or> inst \<in> set (fold_rows s h ip sh pm rows [?new])"
      using Cons.prems(2) False by (simp add: fold_rows_step del: fold_rows.simps)
    then show ?thesis
    proof
      assume "inst = cur"
      moreover have "filter (\<lambda>x. row_id x = i_id cur) (r # rows) = []"
        using lt ge False by (auto simp: filter_empty_conv)
      ultimately show ?thesis by simp
    next
      assume m: "inst \<in> set (fold_rows s h ip sh pm rows [?new])"
      have idn: "i_id ?new = row_id r" by (simp add: new_ModelInstance_def)
      have s: "sorted (i_id ?new # map row_id rows)" using Cons.prems(1) idn by simp
      have rn: "instance_rows ?new = [r]" by (simp add: instance_rows_def new_ModelInstance_def)
      have "i_id inst \<in> set (map i_id (fold_rows s h ip sh pm rows [?new]))" using m by simp
      then have "i_id inst \<in> set (row_id r # map row_id rows)"
        by (simp add: fold_rows_ids idn)
      then have "row_id r \<le> i_id inst" using ge by auto
      then have ne: "i_id inst \<noteq> i_id cur" using lt by auto
      from Cons.IH[OF s m] show ?thesis using ne rn idn by auto
    qed
  qed
qed

lemma filter_unique:
  assumes "distinct (map f xs)" "x \<in> set xs"
  shows "filter (\<lambda>y. f y = f x) xs = [x]"
  using assms
proof (induction xs)
  case Nil
  then show ?case by simp
next
  case (Cons a xs)
  show ?case
  proof (cases "a = x")
    case True
    then have "\<forall>y \<in> set xs. f y \<noteq> f x" using Cons.prems(1) by (auto simp: image_iff)
    then have "filter (\<lambda>y. f y = f x) xs = []" by (simp add: filter_empty_conv)
    then show ?thesis using True by simp
  next
    case False
    then have "x \<in> set xs" using Cons.prems(2) by simp
    moreover have "f a \<noteq> f x" using Cons.prems(1) \<open>x \<in> set xs\<close> by (auto simp: image_iff)
    ultimately show ?thesis using Cons by simp
  qed
qed

text \<open>
  Claim C5. When the rows are ordered by parent id ascending, the rows that share a
  parent id \<open>p\<close> (there are N of them, N at least 1) are folded into exactly one
  instance with that id, and this instance holds all N rows, in their order. For the
  unordered rows with parent ids 1, 2, 1 the fold makes two instances with id 1.
\<close>

theorem createModelInstances_folds:
  fixes rows :: "('id::linorder) row list"
  assumes ordered: "sorted (map row_id rows)"
    and present: "p \<in> row_id ` set rows"
  shows "\<exists>inst. filter (\<lambda>i. i_id i = p)
                  (priv_createModelInstances self rows hookName isPartial isShallow privateMap) = [inst]
           \<and> instance_rows inst = filter (\<lambda>r. row_id r = p) rows
           \<and> length (instance_rows inst) = length (filter (\<lambda>r. row_id r = p) rows)
           \<and> 0 < length (instance_rows inst)
           \<and> length (filter (\<lambda>i. i_id i = 1)
                 (priv_createModelInstances ''A''
                    [join_row 1 ''a'', join_row 2 ''b'', join_row 1 ''c'']
                    None False JUndefined JUndefined)) = 2"
proof -
  from present obtain r rs where rows: "rows = r # rs" by (cases rows) auto
  let ?new = "new_ModelInstance self (Some r) None (row_id r) hookName isPartial isShallow privateMap"
  let ?is = "priv_createModelInstances self rows hookName isPartial isShallow privateMap"
  have idn: "i_id ?new = row_id r" by (simp add: new_ModelInstance_def)
  have rn: "instance_rows ?new = [r]" by (simp add: instance_rows_def new_ModelInstance_def)
  have is_eq: "?is = fold_rows self hookName isPartial isShallow privateMap rs [?new]"
    by (simp add: priv_createModelInstances_def rows)
  have ids: "map i_id ?is = remdups_adj (map row_id rows)"
    unfolding is_eq fold_rows_ids idn by (simp add: rows)
  have dist: "distinct (map i_id ?is)"
    unfolding ids by (rule sorted_remdups_adj_distinct[OF ordered])
  have "p \<in> set (map i_id ?is)" using present by (simp add: ids)
  then obtain inst where inst: "inst \<in> set ?is" "i_id inst = p" by auto
  have one: "filter (\<lambda>i. i_id i = p) ?is = [inst]"
    using filter_unique[OF dist inst(1)] inst(2) by simp
  have s: "sorted (i_id ?new # map row_id rs)" using ordered by (simp add: rows idn)
  have "instance_rows inst = (if i_id inst = i_id ?new then instance_rows ?new else []) @
           filter (\<lambda>x. row_id x = i_id inst) rs"
    using fold_rows_rows[OF s] inst(1) unfolding is_eq by blast
  then have "instance_rows inst = filter (\<lambda>x. row_id x = p) rows"
    using inst(2) by (auto simp: rows instance_rows_def new_ModelInstance_def)
  moreover have "filter (\<lambda>x. row_id x = p) rows \<noteq> []"
    using present by (auto simp: filter_empty_conv)
  moreover have "length (filter (\<lambda>i. i_id i = 1)
                 (priv_createModelInstances ''A''
                    [join_row 1 ''a'', join_row 2 ''b'', join_row 1 ''c'']
                    None False JUndefined JUndefined)) = 2"
    by (simp add: priv_createModelInstances_def join_row_def consumeRow_def new_ModelInstance_def)
  ultimately show ?thesis using one by simp
qed

text \<open>Three ordered join rows, two of them of parent 1: one instance with both children.\<close>

theorem createModelInstances_folds_witness:
  "\<exists>inst. filter (\<lambda>i. i_id i = 1)
             (priv_createModelInstances ''A''
                [join_row 1 ''a'', join_row 1 ''b'', join_row 2 ''c'']
                None False JUndefined JUndefined) = [inst]
         \<and> instance_rows inst = [join_row 1 ''a'', join_row 1 ''b'']"
proof -
  let ?rows = "[join_row 1 ''a'', join_row 1 ''b'', join_row 2 ''c'']"
  have h1: "sorted (map row_id ?rows)" by (simp add: join_row_def)
  have h2: "1 \<in> row_id ` set ?rows" by (simp add: join_row_def)
  have f: "filter (\<lambda>r. row_id r = 1) ?rows = [join_row 1 ''a'', join_row 1 ''b'']"
    by (simp add: join_row_def)
  from createModelInstances_folds[OF h1 h2, of "''A''" None False JUndefined JUndefined]
  show ?thesis unfolding f by blast
qed

subsection \<open>Calls under an active migration\<close>





subsection \<open>What a call leaves behind\<close>

lemma snd_then_do: "snd (then_do r f) = snd r"
  by (cases "(r, f)" rule: then_do.cases) (auto split: sum.splits)

lemma table_promise_world:
  "snd (table_promise n c w) = w\<lparr>datastore := datastore w @ [(n, c)]\<rparr>"
  by (simp add: table_promise_def call_table_def split: sum.splits)

lemma addTask_world:
  "snd (addTask n operation args w :: 'a outcome \<times> world) =
     w\<lparr>migration := migration w @
         [AddTask \<lparr>task_model = n, task_operation = operation, task_args = args\<rparr>]\<rparr>"
  by (simp add: addTask_def)

subsection \<open>Removing without a where clause\<close>

lemma remove_m_datastore:
  "datastore (snd (remove_m n whereMap optionsMap w)) = datastore w \<or>
   (\<exists>where' l s ob. where' \<noteq> [] \<and>
      datastore (snd (remove_m n whereMap optionsMap w)) = datastore w @ [(n, TRemove where' l s ob)])"
  by (auto simp: remove_m_def addTask_world snd_then_do table_promise_world Let_def
      split: sum.splits)

lemma removeOne_datastore:
  "datastore (snd (removeOne n whereMap optionsMap w)) = datastore w \<or>
   (\<exists>where' l s ob. where' \<noteq> [] \<and>
      datastore (snd (removeOne n whereMap optionsMap w)) = datastore w @ [(n, TRemove where' l s ob)])"
proof -
  obtain options w1 where o: "oset (options_or_empty optionsMap) ''limit'' (JNum 1) w = (options, w1)"
    by (cases "oset (options_or_empty optionsMap) ''limit'' (JNum 1) w")
  have d: "datastore w1 = datastore w"
    using o by (auto simp: oset_def split: omap.splits)
  have "snd (removeOne n whereMap optionsMap w) = snd (remove_m n whereMap options w1)"
    by (simp add: removeOne_def o snd_then_do)
  then show ?thesis using remove_m_datastore[of n whereMap options w1] d by simp
qed

text \<open>
  Claim C3, as the code has it. When no migration is active on the model and the
  transformed where-map has no key, \<^verbatim>\<open>remove\<close> throws its error, an \<^verbatim>\<open>Error\<close>
  that carries no status, and the state is unchanged: no call has reached the datastore.
  Every call \<^verbatim>\<open>remove\<close> or \<^verbatim>\<open>removeOne\<close> ever issues to the table has a where
  clause with at least one key; \<^verbatim>\<open>removeAll\<close> issues the one with none.
\<close>

theorem remove_requires_where:
  assumes inactive: "\<not> m_activeMigration (models w n)"
    and entries: "entries_of (or_empty whereMap) = Inr entries"
    and empty: "priv_transformWhereMap w n entries = Inr []"
  shows "remove_m n whereMap optionsMap w = (Throws remove_without_where, w)
       \<and> err_status remove_without_where = None
       \<and> (datastore (snd (remove_m n whereMap2 optionsMap2 w2)) = datastore w2 \<or>
          (\<exists>where' l s ob. where' \<noteq> [] \<and>
             datastore (snd (remove_m n whereMap2 optionsMap2 w2)) =
               datastore w2 @ [(n, TRemove where' l s ob)]))
       \<and> (datastore (snd (removeOne n whereMap2 optionsMap2 w2)) = datastore w2 \<or>
          (\<exists>where' l s ob. where' \<noteq> [] \<and>
             datastore (snd (removeOne n whereMap2 optionsMap2 w2)) =
               datastore w2 @ [(n, TRemove where' l s ob)]))
       \<and> (m_table (models w n) \<longrightarrow>
            datastore (snd (removeAll_m n args w)) =
              datastore w @ [(n, TRemove [] JUndefined JUndefined JUndefined)])"
proof -
  have a: "remove_m n whereMap optionsMap w = (Throws remove_without_where, w)"
    using inactive entries empty by (simp add: remove_m_def)
  have b: "err_status remove_without_where = None"
    by (simp add: remove_without_where_def)
  have c: "m_table (models w n) \<longrightarrow>
            datastore (snd (removeAll_m n args w)) =
              datastore w @ [(n, TRemove [] JUndefined JUndefined JUndefined)]"
    using inactive by (simp add: removeAll_m_def table_promise_world)
  from a b c remove_m_datastore[of n whereMap2 optionsMap2 w2]
    removeOne_datastore[of n whereMap2 optionsMap2 w2]
  show ?thesis by blast
qed

text \<open>The user model, an empty where-map.\<close>

theorem remove_requires_where_witness:
  "remove_m ''User'' (JObj []) ONone (world_of users) = (Throws remove_without_where, world_of users)
   \<and> datastore (snd (removeAll_m ''User'' [] (world_of users))) =
       [(''User'', TRemove [] JUndefined JUndefined JUndefined)]"
proof -
  let ?w = "world_of users"
  have h1: "\<not> m_activeMigration (models ?w ''User'')"
    by (simp add: world_of_def users_def user_model_def blank_model_def)
  have h2: "entries_of (or_empty (JObj [])) = Inr []"
    by (simp add: entries_of_def or_empty_def)
  have h3: "priv_transformWhereMap ?w ''User'' [] = Inr []"
    by (simp add: priv_transformWhereMap_def)
  have t: "m_table (models ?w ''User'')"
    by (simp add: world_of_def users_def user_model_def blank_model_def)
  have d: "datastore ?w = []" by (simp add: world_of_def)
  from remove_requires_where[OF h1 h2 h3, where optionsMap = ONone and args = "[]"] t d
  show ?thesis by simp
qed

text \<open>
  Claim C3 as stated fails twice. The error \<^verbatim>\<open>remove\<close> throws for an empty where-map
  has no status, so it is not the 400 of a bad request (model.js sets
  \<^verbatim>\<open>error.status = 400\<close> where it means one, line 1394). And under an active
  migration \<^verbatim>\<open>remove\<close> with an empty where-map does not fail: the call is queued.
\<close>

theorem remove_empty_where_counterexample:
  "fst (remove_m ''User'' (JObj []) ONone (world_of users)) = Throws remove_without_where
   \<and> err_status remove_without_where \<noteq> Some 400
   \<and> fst (remove_m ''User'' (JObj []) ONone (world_of migrating_users)) = Queued 0
   \<and> datastore (snd (remove_m ''User'' (JObj []) ONone (world_of migrating_users))) = []"
  by (simp add: remove_m_def addTask_def world_of_def migrating_users_def users_def user_model_def
       blank_model_def entries_of_def or_empty_def priv_transformWhereMap_def
       remove_without_where_def)

subsection \<open>findOne and getOne\<close>

lemma oset_limit:
  assumes "oset (options_or_empty optionsMap) ''limit'' (JNum 1) w = (options, w1)"
  shows "oget w1 options ''limit'' = JNum 1" and "options_or_empty options = options"
    and "datastore w1 = datastore w" and "models w1 = models w" and "migration w1 = migration w"
    and "db w1 = db w"
  using assms
  by (auto simp: oset_def options_or_empty_def oget_def dget_dset split: omap.splits)

lemma then_do_Resolves:
  "then_do r f = (Resolves v, w') \<Longrightarrow> \<exists>x. r = (Resolves x, w') \<and> f x = Inr v \<or> r = (Returns x, w') \<and> f x = Inr v"
  by (cases "(r, f)" rule: then_do.cases) (auto split: sum.splits)

lemma table_promise_not_Returns: "table_promise n c w \<noteq> (Returns x, w')"
  by (simp add: table_promise_def call_table_def split: sum.splits prod.splits)

lemma options_handed_on: "options_or_empty (handed_on optionsMap) = options_or_empty optionsMap"
  by (cases optionsMap) (simp_all add: options_or_empty_def handed_on_def)

lemma findOne_handed_on:
  "\<not> m_activeMigration (models w n) \<Longrightarrow>
     findOne n whereMap (handed_on optionsMap) w = findOne n whereMap optionsMap w"
  by (simp add: findOne_def options_handed_on)

lemma find_m_select:
  assumes "\<not> m_activeMigration (models w n)"
    and "find_m n whereMap options w = (Resolves instances, w')"
    and "options_or_empty options = options"
  shows "\<exists>where' sk ob gb se as af.
           datastore w' = datastore w @ [(n, TSelect where' (oget w options ''limit'') sk ob gb se as af)]"
proof -
  from assms(1,2) obtain entries where' where
    t: "m_table (models w n)" and
    f: "then_do (table_promise n (TSelect where' (oget w options ''limit'') (oget w options ''skip'')
               (oget w options ''orderBy'') (oget w options ''groupBy'') (oget w options ''select'')
               (oget w options ''associations'') (oget w options ''autoFetchDepth'')) w)
          (\<lambda>r. case rows_of r of Inl e \<Rightarrow> Inl e
               | Inr rows \<Rightarrow> Inr (priv_createModelInstances n rows None False
                                    (oget w options ''isShallow'') JUndefined))
        = (Resolves instances, w')"
    unfolding find_m_def
    by (auto simp: Let_def assms(3) split: sum.splits if_splits)
  have "w' = snd (table_promise n (TSelect where' (oget w options ''limit'') (oget w options ''skip'')
               (oget w options ''orderBy'') (oget w options ''groupBy'') (oget w options ''select'')
               (oget w options ''associations'') (oget w options ''autoFetchDepth'')) w)"
    using f snd_then_do by (metis snd_conv)
  then show ?thesis by (simp add: table_promise_world)
qed

text \<open>
  Claim C7, as the code has it. When no migration is active on the model, \<^verbatim>\<open>findOne\<close>
  sets \<^verbatim>\<open>limit\<close> to 1 on the options and calls \<^verbatim>\<open>find\<close> with them: the select
  that reaches the datastore has the limit 1. When \<^verbatim>\<open>find\<close> resolves with a non-empty
  list, \<^verbatim>\<open>findOne\<close> and \<^verbatim>\<open>getOne\<close> resolve with its first instance; when it
  resolves with the empty list, \<^verbatim>\<open>findOne\<close> resolves with \<^verbatim>\<open>null\<close> and
  \<^verbatim>\<open>getOne\<close> is rejected with the error of status 404, "Not Found". A rejection of
  \<^verbatim>\<open>find\<close> is passed on by both.
\<close>

theorem findOne_getOne:
  assumes inactive: "\<not> m_activeMigration (models w n)"
    and limited: "oset (options_or_empty optionsMap) ''limit'' (JNum 1) w = (options, w1)"
  shows "oget w1 options ''limit'' = JNum 1
       \<and> (\<forall>instances w2. find_m n whereMap options w1 = (Resolves instances, w2) \<longrightarrow>
             (\<exists>where' sk ob gb se as af.
                datastore w2 = datastore w @ [(n, TSelect where' (JNum 1) sk ob gb se as af)])
           \<and> (instances \<noteq> [] \<longrightarrow>
                 findOne n whereMap optionsMap w = (Resolves (Some (hd instances)), w2)
               \<and> getOne n whereMap optionsMap w = (Resolves (hd instances), w2))
           \<and> (instances = [] \<longrightarrow>
                 findOne n whereMap optionsMap w = (Resolves None, w2)
               \<and> getOne n whereMap optionsMap w = (Rejects (Error (Some 404) ''Not Found''), w2)))
       \<and> (\<forall>e w2. find_m n whereMap options w1 = (Rejects e, w2) \<longrightarrow>
             findOne n whereMap optionsMap w = (Rejects e, w2)
           \<and> getOne n whereMap optionsMap w = (Rejects e, w2))"
proof -
  note l = oset_limit[OF limited]
  have inactive1: "\<not> m_activeMigration (models w1 n)" using inactive l(4) by simp
  have fo: "findOne n whereMap optionsMap w =
      then_do (find_m n whereMap options w1) (\<lambda>instances. Inr (first_or_null instances))"
    using inactive limited by (simp add: findOne_def)
  have res: "\<forall>instances w2. find_m n whereMap options w1 = (Resolves instances, w2) \<longrightarrow>
             (\<exists>where' sk ob gb se as af.
                datastore w2 = datastore w @ [(n, TSelect where' (JNum 1) sk ob gb se as af)])
           \<and> (instances \<noteq> [] \<longrightarrow>
                 findOne n whereMap optionsMap w = (Resolves (Some (hd instances)), w2)
               \<and> getOne n whereMap optionsMap w = (Resolves (hd instances), w2))
           \<and> (instances = [] \<longrightarrow>
                 findOne n whereMap optionsMap w = (Resolves None, w2)
               \<and> getOne n whereMap optionsMap w = (Rejects (Error (Some 404) ''Not Found''), w2))"
  proof (intro allI impI)
    fix instances w2
    assume f: "find_m n whereMap options w1 = (Resolves instances, w2)"
    from find_m_select[OF inactive1 f l(2)] l(1) l(3)
    have sel: "\<exists>where' sk ob gb se as af.
                datastore w2 = datastore w @ [(n, TSelect where' (JNum 1) sk ob gb se as af)]"
      by simp
    have one: "findOne n whereMap optionsMap w = (Resolves (first_or_null instances), w2)"
      by (simp add: fo f)
    then have gone: "getOne n whereMap optionsMap w =
        (case first_or_null instances of
           Some i \<Rightarrow> (Resolves i, w2)
         | None \<Rightarrow> (Rejects (Error (Some 404) ''Not Found''), w2))"
      using inactive by (simp add: getOne_def findOne_handed_on split: option.splits)
    show "(\<exists>where' sk ob gb se as af.
                datastore w2 = datastore w @ [(n, TSelect where' (JNum 1) sk ob gb se as af)])
           \<and> (instances \<noteq> [] \<longrightarrow>
                 findOne n whereMap optionsMap w = (Resolves (Some (hd instances)), w2)
               \<and> getOne n whereMap optionsMap w = (Resolves (hd instances), w2))
           \<and> (instances = [] \<longrightarrow>
                 findOne n whereMap optionsMap w = (Resolves None, w2)
               \<and> getOne n whereMap optionsMap w = (Rejects (Error (Some 404) ''Not Found''), w2))"
      using sel one gone by (simp add: first_or_null_def)
  qed
  have rej: "\<forall>e w2. find_m n whereMap options w1 = (Rejects e, w2) \<longrightarrow>
             findOne n whereMap optionsMap w = (Rejects e, w2)
           \<and> getOne n whereMap optionsMap w = (Rejects e, w2)"
    using inactive by (simp add: fo getOne_def findOne_handed_on)
  from l(1) res rej show ?thesis by blast
qed

text \<open>The user model with one row in the datastore, and with none.\<close>

lemma users_inactive: "\<not> m_activeMigration (models (world_rows users rows) ''User'')"
  by (simp add: world_rows_def world_of_def users_def user_model_def blank_model_def)

lemma find_users:
  "find_m ''User'' (JObj []) (OLit [(''limit'', JNum 1)]) (world_rows users rows) =
     (Resolves (priv_createModelInstances ''User'' rows None False JUndefined JUndefined),
      (world_rows users rows)\<lparr>datastore := [(''User'', TSelect [] (JNum 1) JUndefined JUndefined JUndefined
         JUndefined JUndefined JUndefined)]\<rparr>)"
  by (simp add: find_m_def world_rows_def world_of_def users_def user_model_def blank_model_def
      entries_of_def or_empty_def priv_transformWhereMap_def options_or_empty_def oget_def dget_def
      Object_prototype_names_def table_promise_def call_table_def rows_of_def)

theorem findOne_getOne_witness:
  "fst (getOne ''User'' (JObj []) ONone (world_rows users [user_row])) =
     Resolves (new_ModelInstance ''User'' (Some user_row) None (JStr ''u1'') None False JUndefined JUndefined)
   \<and> fst (findOne ''User'' (JObj []) ONone (world_rows users [])) = Resolves None
   \<and> fst (getOne ''User'' (JObj []) ONone (world_rows users [])) = Rejects (Error (Some 404) ''Not Found'')"
proof -
  have o: "\<And>rows. oset (options_or_empty ONone) ''limit'' (JNum 1) (world_rows users rows) =
      (OLit [(''limit'', JNum 1)], world_rows users rows)"
    by (simp add: oset_def options_or_empty_def dset_def)
  have i1: "priv_createModelInstances ''User'' [user_row] None False JUndefined JUndefined =
      [new_ModelInstance ''User'' (Some user_row) None (JStr ''u1'') None False JUndefined JUndefined]"
    by (simp add: priv_createModelInstances_def user_row_def)
  have i0: "priv_createModelInstances ''User'' ([] :: jsval row list) None False JUndefined JUndefined = []"
    by (simp add: priv_createModelInstances_def)
  from findOne_getOne[OF users_inactive o, of "[user_row]" "JObj []"] find_users[of "[user_row]"] i1
  have a: "fst (getOne ''User'' (JObj []) ONone (world_rows users [user_row])) =
     Resolves (new_ModelInstance ''User'' (Some user_row) None (JStr ''u1'') None False JUndefined JUndefined)"
    by simp
  from findOne_getOne[OF users_inactive o, of "[]" "JObj []"] find_users[of "[]"] i0
  have b: "fst (findOne ''User'' (JObj []) ONone (world_rows users [])) = Resolves None
   \<and> fst (getOne ''User'' (JObj []) ONone (world_rows users [])) = Rejects (Error (Some 404) ''Not Found'')"
    by simp
  from a b show ?thesis by blast
qed

text \<open>
  Claim C7 as stated fails under an active migration: \<^verbatim>\<open>findOne\<close> does not run
  \<^verbatim>\<open>find\<close> and resolves with neither an instance nor \<^verbatim>\<open>null\<close>; it returns the
  handle of the task it queued under its own name, with the options as they were passed
  (no limit), and nothing reaches the datastore.
\<close>

theorem findOne_queued_counterexample:
  "findOne ''User'' (JObj []) (OLit []) (world_of migrating_users) =
     (Queued 0, (world_of migrating_users)\<lparr>migration :=
        [AddTask \<lparr>task_model = ''User'', task_operation = ''findOne'',
                  task_args = [AVal (JObj []), AVal (JObj [])]\<rparr>]\<rparr>)
   \<and> datastore (snd (findOne ''User'' (JObj []) (OLit []) (world_of migrating_users))) = []"
  by (simp add: findOne_def addTask_def omap_arg_def world_of_def migrating_users_def)

subsection \<open>The options object of the caller\<close>

lemma addProperty_heap: "heap (snd (addProperty n p isNew w)) = heap w"
  by (simp add: addProperty_def put_model_def Let_def split: option.splits)

lemma priv_addProperty_heap: "heap (snd (priv_addProperty n k ts isNew w)) = heap w"
proof (cases "ts = []")
  case True
  then show ?thesis by (simp add: priv_addProperty_def)
next
  case False
  obtain r w' where a: "addProperty n (new_Property k ts) isNew w = (r, w')"
    by (cases "addProperty n (new_Property k ts) isNew w")
  then have "heap w' = heap w" using addProperty_heap[of n "new_Property k ts" isNew w] by simp
  then show ?thesis using False a by (cases r) (simp_all add: priv_addProperty_def)
qed

lemma priv_addMethod_heap: "heap (priv_addMethod n k w) = heap w"
  by (simp add: priv_addMethod_def put_model_def Let_def)

lemma enumerate_members_heap: "heap (snd (enumerate_members n fs w)) = heap w"
proof (induction fs arbitrary: w)
  case Nil
  then show ?case by simp
next
  case (Cons kf fs)
  obtain k f where kf: "kf = (k, f)" by (cases kf)
  show ?case
  proof (cases "k \<in> set Model_prototype_names")
    case True
    then show ?thesis using Cons kf by simp
  next
    case False
    show ?thesis
    proof (cases f)
      case (FArray ts)
      obtain r w' where a: "priv_addProperty n k ts True w = (r, w')"
        by (cases "priv_addProperty n k ts True w")
      then have h: "heap w' = heap w" using priv_addProperty_heap[of n k ts True w] by simp
      show ?thesis using False kf FArray a h Cons[of w'] by (cases r) simp_all
    next
      case FFunction
      then show ?thesis using False kf Cons[of "priv_addMethod n k w"]
        by (simp add: priv_addMethod_heap)
    next
      case (FValue v)
      then show ?thesis using False kf Cons by simp
    qed
  qed
qed

lemma getAllProperties_heap: "heap (snd (getAllProperties n w)) = heap w"
proof (cases "m_properties (models w n)")
  case (Some props)
  then show ?thesis by (simp add: getAllProperties_def)
next
  case None
  define this where "this = (let t = (models w n)\<lparr>m_properties := Some []\<rparr>
      in if \<not> (case map_of (m_fields t) ''id'' of None \<Rightarrow> False | Some f \<Rightarrow> field_truthy f)
         then t\<lparr>m_fields := AList.update ''id'' (FArray id_types) (m_fields t),
                m_properties := Some [(''id'', new_Property ''id'' id_types)]\<rparr>
         else t)"
  obtain r w2 where e: "enumerate_members n (m_fields this) (put_model n this w) = (r, w2)"
    by (cases "enumerate_members n (m_fields this) (put_model n this w)")
  have "heap w2 = heap (put_model n this w)"
    using enumerate_members_heap[of n "m_fields this" "put_model n this w"] e by simp
  then have h: "heap w2 = heap w" by (simp add: put_model_def)
  have "getAllProperties n w =
     (case (r, w2) of
        (Throws e, w2) \<Rightarrow> (Throws e, w2)
      | (_, w2) \<Rightarrow> (case m_properties (models w2 n) of
                     Some props \<Rightarrow> (Returns props, w2)
                   | None \<Rightarrow> (Throws TypeError, w2)))"
    using None e unfolding getAllProperties_def this_def by (simp add: Let_def)
  then show ?thesis using h by (cases r) (simp_all split: option.splits)
qed

lemma priv_transformSetMap_heap: "heap (snd (priv_transformSetMap n m isNew w)) = heap w"
proof -
  obtain r w' where g: "getAllProperties n w = (r, w')" by (cases "getAllProperties n w")
  then have "heap w' = heap w" using getAllProperties_heap[of n w] by simp
  then show ?thesis using g by (cases r) (simp_all add: priv_transformSetMap_def)
qed

lemma find_m_heap: "heap (snd (find_m n whereMap optionsMap w)) = heap w"
  by (simp add: find_m_def addTask_world snd_then_do table_promise_world Let_def split: sum.splits)

lemma remove_m_heap: "heap (snd (remove_m n whereMap optionsMap w)) = heap w"
  by (simp add: remove_m_def addTask_world snd_then_do table_promise_world Let_def split: sum.splits)

lemma update_m_heap: "heap (snd (update_m n whereMap setMap optionsMap w)) = heap w"
proof (cases "m_activeMigration (models w n)")
  case True
  then show ?thesis by (simp add: update_m_def addTask_world)
next
  case False
  obtain r w1 where t: "priv_transformSetMap n (set_or_empty setMap) False w = (r, w1)"
    by (cases "priv_transformSetMap n (set_or_empty setMap) False w")
  then have h: "heap w1 = heap w"
    using priv_transformSetMap_heap[of n "set_or_empty setMap" False w] by simp
  show ?thesis using False t h
    by (cases r) (simp_all add: update_m_def snd_then_do table_promise_world Let_def split: sum.splits)
qed

lemma oset_ref:
  "oset (options_or_empty (ORef a)) key v w = (ORef a, w\<lparr>heap := (heap w)(a := dset (heap w a) key v)\<rparr>)"
  by (simp add: oset_def options_or_empty_def)

text \<open>
  Claim C10, as the code has it. \<^verbatim>\<open>updateOne\<close> and \<^verbatim>\<open>removeOne\<close> always set
  \<^verbatim>\<open>limit\<close> to 1 on the options object the caller passed, in place, and so does
  \<^verbatim>\<open>findOne\<close> when no migration is active; under an active migration \<^verbatim>\<open>findOne\<close>
  leaves the caller's objects as they were.
\<close>

theorem one_sets_limit_in_place:
  "dget (heap (snd (updateOne n whereMap setMap (ORef a) w)) a) ''limit'' = JNum 1
   \<and> dget (heap (snd (removeOne n whereMap (ORef a) w)) a) ''limit'' = JNum 1
   \<and> (\<not> m_activeMigration (models w n) \<longrightarrow>
        dget (heap (snd (findOne n whereMap (ORef a) w)) a) ''limit'' = JNum 1)
   \<and> (m_activeMigration (models w n) \<longrightarrow>
        heap (snd (findOne n whereMap (ORef a) w)) = heap w)"
proof -
  let ?w1 = "w\<lparr>heap := (heap w)(a := dset (heap w a) ''limit'' (JNum 1))\<rparr>"
  have l: "dget (heap ?w1 a) ''limit'' = JNum 1" by (simp add: dget_dset)
  have u: "dget (heap (snd (updateOne n whereMap setMap (ORef a) w)) a) ''limit'' = JNum 1"
    using l by (simp add: updateOne_def oset_ref snd_then_do update_m_heap)
  have r: "dget (heap (snd (removeOne n whereMap (ORef a) w)) a) ''limit'' = JNum 1"
    using l by (simp add: removeOne_def oset_ref snd_then_do remove_m_heap)
  have f: "\<not> m_activeMigration (models w n) \<longrightarrow>
        dget (heap (snd (findOne n whereMap (ORef a) w)) a) ''limit'' = JNum 1"
    using l by (simp add: findOne_def oset_ref snd_then_do find_m_heap)
  have g: "m_activeMigration (models w n) \<longrightarrow>
        heap (snd (findOne n whereMap (ORef a) w)) = heap w"
    by (simp add: findOne_def addTask_world)
  from u r f g show ?thesis by blast
qed

text \<open>The options object at address 0, with and without a migration.\<close>

theorem one_sets_limit_in_place_witness:
  "dget (heap (snd (findOne ''User'' (JObj []) (ORef 0) (world_of users))) 0) ''limit'' = JNum 1
   \<and> heap (snd (findOne ''User'' (JObj []) (ORef 0) (world_of migrating_users))) =
       heap (world_of migrating_users)"
proof -
  have h1: "\<not> m_activeMigration (models (world_of users) ''User'')"
    by (simp add: world_of_def users_def user_model_def blank_model_def)
  have h2: "m_activeMigration (models (world_of migrating_users) ''User'')"
    by (simp add: world_of_def migrating_users_def)
  from one_sets_limit_in_place[of "''User''" "JObj []" SUndefined 0 "world_of users"] h1
    one_sets_limit_in_place[of "''User''" "JObj []" SUndefined 0 "world_of migrating_users"] h2
  show ?thesis by blast
qed

text \<open>
  Claim C10 as stated fails for \<^verbatim>\<open>findOne\<close> under an active migration: its check of
  the migration comes before the assignment, so after the call the caller's object
  still has no \<^verbatim>\<open>limit\<close>, while \<^verbatim>\<open>updateOne\<close> in the same state has set it.
\<close>

theorem findOne_keeps_options_counterexample:
  "dget (heap (snd (findOne ''User'' (JObj []) (ORef 0) (world_of migrating_users))) 0) ''limit''
     = JUndefined
   \<and> dget (heap (snd (updateOne ''User'' (JObj []) SUndefined (ORef 0) (world_of migrating_users))) 0) ''limit''
     = JNum 1"
  by (simp add: findOne_def updateOne_def update_m_def addTask_def oset_def options_or_empty_def
       world_of_def migrating_users_def dget_def dset_def Object_prototype_names_def)

subsection \<open>The keys of a where-map\<close>
















text \<open>
  A key with a dot whose first piece names no property: the call fails before any
  datastore call, with the TypeError of calling \<^verbatim>\<open>isManyToMany\<close> on
  \<^verbatim>\<open>undefined\<close> (line 625), not with "Cannot find property".
\<close>

lemma dotted_unknown_segment:
  "find_m ''User'' (JObj [(''ghost.name'', JNum 1)]) ONone (world_of users) =
     (Throws TypeError, world_of users)"
proof -
  have "getProperty (world_of users) ''User'' ''ghost.name'' = Inl TypeError"
    by (subst getProperty.simps)
       (simp add: world_of_def users_def read_slot_def Object_prototype_names_def)
  then show ?thesis
    by (simp add: find_m_def entries_of_def or_empty_def priv_transformWhereMap_def is_operator_def
         world_of_def users_def user_model_def blank_model_def)
qed

subsection \<open>Access-control denials\<close>

text \<open>
  \<^verbatim>\<open>Model.canCreate\<close> never takes its denial branch: what it tests is the
  access-control object, which is truthy. With the actor resolved, it can only be
  rejected for a missing authenticator model or a manually set automatic property.
\<close>

lemma stamp_all_error:
  "stamp_all automatic authenticator createMaps = Inl e \<Longrightarrow>
     e = Error (Some 400) ''Cannot set automatic property manually.''"
  by (induction createMaps arbitrary: e) (auto split: if_splits sum.splits)

lemma canCreate_rejections:
  assumes "canCreate self authenticatorModel createMaps request (Inr authenticator) = Rejects e"
  shows "e = no_authenticator_model \<or> e = Error (Some 400) ''Cannot set automatic property manually.''"
  using assms stamp_all_error
  by (auto simp: canCreate_def getAccessControl_def Let_def split: if_splits sum.splits option.splits)

text \<open>
  Claim C9. The error of an access-control denial, in model.js and in the API fixture,
  has status 401 ("Unauthorized") when no actor was resolved (the authenticator is
  \<^verbatim>\<open>null\<close>) and status 403 ("Forbidden") when an actor was resolved (the
  authenticator is a model instance), and it is with this error that a handler rejects
  a request the access control did not grant.
\<close>

theorem denial_status:
  "err_status (unauthenticatedError authenticator) = Some (if truthy authenticator then 403 else 401)
   \<and> err_status (tester_unauthenticatedError authenticator) =
       Some (if truthy authenticator then 403 else 401)
   \<and> unauthenticatedError JNull = Error (Some 401) ''Unauthorized''
   \<and> unauthenticatedError (JObj actor) = Error (Some 403) ''Forbidden''
   \<and> tester_unauthenticatedError JNull = Error (Some 401) ''Unauthorized''
   \<and> tester_unauthenticatedError (JObj actor) = Error (Some 403) ''Forbidden''
   \<and> (\<not> truthy can \<longrightarrow>
        access_decision can authenticator granted = Rejects (tester_unauthenticatedError authenticator))"
  by (simp add: unauthenticatedError_def tester_unauthenticatedError_def STATUS_CODES_def
       access_decision_def Let_def)

text \<open>A denied request without an actor, and one with an actor.\<close>

theorem denial_status_witness:
  "access_decision (JBool False) JNull (Resolves ()) = Rejects (Error (Some 401) ''Unauthorized'')
   \<and> access_decision (JBool False) (JObj [(''id'', JStr ''u1'')]) (Resolves ()) =
       Rejects (Error (Some 403) ''Forbidden'')"
proof -
  have f: "\<not> truthy (JBool False)" by simp
  from denial_status[of JNull "[]" "JBool False" "Resolves ()"]
       denial_status[of "JObj [(''id'', JStr ''u1'')]" "[(''id'', JStr ''u1'')]" "JBool False" "Resolves ()"] f
  show ?thesis by simp
qed

subsection \<open>Creating an array of instances\<close>

lemma length_deliver: "length (deliver ir xs) = length xs"
  by (simp add: deliver_def)

lemma length_run: "length (run schedule xs) = length xs"
  unfolding run_def by (induction schedule arbitrary: xs) (simp_all add: length_deliver)

lemma deliver_nth:
  "i < length xs \<Longrightarrow> deliver ir xs ! i = (if fst ir = i then feed1 (xs ! i) (snd ir) else xs ! i)"
  by (simp add: deliver_def nth_list_update)

lemma run_nth:
  "i < length xs \<Longrightarrow> run schedule xs ! i = feed (xs ! i) (answers_for i schedule)"
proof (induction schedule arbitrary: xs)
  case Nil
  then show ?case by (simp add: run_def feed_def answers_for_def)
next
  case (Cons ir schedule)
  have l: "i < length (deliver ir xs)" using Cons.prems by (simp add: length_deliver)
  have "run (ir # schedule) xs ! i = run schedule (deliver ir xs) ! i" by (simp add: run_def)
  also have "\<dots> = feed (deliver ir xs ! i) (answers_for i schedule)" by (rule Cons.IH[OF l])
  also have "\<dots> = feed (xs ! i) (answers_for i (ir # schedule))"
    using Cons.prems by (simp add: deliver_nth feed_def answers_for_def)
  finally show ?case .
qed

lemma outstanding_all:
  "list_all (\<lambda>x. first_call x \<noteq> None) xs \<Longrightarrow> length (outstanding xs) = length xs"
  unfolding outstanding_def by (induction xs) auto

lemma all_fulfilled_nth:
  assumes "all_fulfilled xs = Some vs"
  shows "length vs = length xs" and "\<forall>i < length xs. xs ! i = Settled (Inr (vs ! i))"
proof -
  have a: "list_all (\<lambda>x. fulfilled_value x \<noteq> None) xs" and v: "vs = map (\<lambda>x. the (fulfilled_value x)) xs"
    using assms by (auto simp: all_fulfilled_def split: if_splits)
  show "length vs = length xs" using v by simp
  show "\<forall>i < length xs. xs ! i = Settled (Inr (vs ! i))"
  proof (intro allI impI)
    fix i assume i: "i < length xs"
    then have "fulfilled_value (xs ! i) \<noteq> None" using a by (simp add: list_all_length)
    then obtain u where "xs ! i = Settled (Inr u)"
      by (cases "xs ! i" rule: fulfilled_value.cases) auto
    then show "xs ! i = Settled (Inr (vs ! i))" using v i by simp
  qed
qed

text \<open>
  Claim C8, as the code has it. For an array of create-maps \<^verbatim>\<open>create\<close> calls
  \<^verbatim>\<open>save\<close> once for every element, in input order, and hands the promises to
  \<^verbatim>\<open>Q.all\<close>: there is one save (and so one insert) per element, no bulk insert. When
  every save has issued a datastore call, as many calls are outstanding as there are
  elements. Whatever the order in which the datastore answers, the promise at position
  \<open>i\<close> moves on with the answers to its own calls only, and when all are fulfilled
  \<^verbatim>\<open>Q.all\<close> is fulfilled with the created instances in input order.
\<close>

theorem create_starts_all:
  assumes "create save n (Many createMaps) privateMap = AllOf started"
  shows "length started = length createMaps
       \<and> (\<forall>i < length createMaps.
             started ! i = save (new_ModelInstance n None (Some (createMaps ! i)) JNull None True
                                   (JBool False) privateMap))
       \<and> (list_all (\<lambda>x. first_call x \<noteq> None) started \<longrightarrow>
             length (outstanding started) = length createMaps)
       \<and> (\<forall>schedule. \<forall>i < length createMaps.
             run schedule started ! i = feed (started ! i) (answers_for i schedule))
       \<and> (\<forall>schedule instances. all_fulfilled (run schedule started) = Some instances \<longrightarrow>
             length instances = length createMaps
           \<and> (\<forall>i < length createMaps.
                 feed (started ! i) (answers_for i schedule) = Settled (Inr (instances ! i))))"
proof -
  have st: "started = map (\<lambda>createMap. save (new_ModelInstance n None (Some createMap) JNull None True
                                           (JBool False) privateMap)) createMaps"
    using assms by (simp add: create_def)
  have a: "length started = length createMaps" by (simp add: st)
  have b: "\<forall>i < length createMaps.
             started ! i = save (new_ModelInstance n None (Some (createMaps ! i)) JNull None True
                                   (JBool False) privateMap)"
    by (simp add: st)
  have c: "list_all (\<lambda>x. first_call x \<noteq> None) started \<longrightarrow>
             length (outstanding started) = length createMaps"
    using outstanding_all[of started] a by simp
  have d: "\<forall>schedule. \<forall>i < length createMaps.
             run schedule started ! i = feed (started ! i) (answers_for i schedule)"
    using run_nth[of _ started] a by simp
  have e: "\<forall>schedule instances. all_fulfilled (run schedule started) = Some instances \<longrightarrow>
             length instances = length createMaps
           \<and> (\<forall>i < length createMaps.
                 feed (started ! i) (answers_for i schedule) = Settled (Inr (instances ! i)))"
  proof (intro allI impI)
    fix schedule instances
    assume f: "all_fulfilled (run schedule started) = Some instances"
    from all_fulfilled_nth[OF f] length_run[of schedule started] a d
    show "length instances = length createMaps
           \<and> (\<forall>i < length createMaps.
                 feed (started ! i) (answers_for i schedule) = Settled (Inr (instances ! i)))"
      by auto
  qed
  from a b c d e show ?thesis by blast
qed

text \<open>
  Two create-maps on a model without hooks, answered in the reverse order: the
  instances come in input order.
\<close>

lemma started_two:
  "create save_insert ''A'' (Many [aart, bert]) JUndefined =
     AllOf [save_insert (new_instance ''A'' aart), save_insert (new_instance ''A'' bert)]"
  by (simp add: create_def new_instance_def)

theorem create_starts_all_witness:
  "all_fulfilled (run [(1, Inr (Rows [bert_row])), (0, Inr (Rows [aart_row]))]
      [save_insert (new_instance ''A'' aart), save_insert (new_instance ''A'' bert)]) =
     Some [(new_instance ''A'' aart)\<lparr>i_row := Some aart_row, i_id := JStr ''a1''\<rparr>,
           (new_instance ''A'' bert)\<lparr>i_row := Some bert_row, i_id := JStr ''b1''\<rparr>]
   \<and> length (outstanding [save_insert (new_instance ''A'' aart), save_insert (new_instance ''A'' bert)]) = 2"
proof -
  let ?started = "[save_insert (new_instance ''A'' aart), save_insert (new_instance ''A'' bert)]"
  have f: "list_all (\<lambda>x. first_call x \<noteq> None) ?started"
    by (simp add: save_insert_def)
  have r: "all_fulfilled (run [(1, Inr (Rows [bert_row])), (0, Inr (Rows [aart_row]))] ?started) =
     Some [(new_instance ''A'' aart)\<lparr>i_row := Some aart_row, i_id := JStr ''a1''\<rparr>,
           (new_instance ''A'' bert)\<lparr>i_row := Some bert_row, i_id := JStr ''b1''\<rparr>]"
    by (simp add: run_def deliver_def save_insert_def all_fulfilled_def aart_row_def bert_row_def)
  from create_starts_all[OF started_two] f have "length (outstanding ?started) = 2" by simp
  with r show ?thesis by simp
qed

text \<open>
  Claim C8 as stated fails for two create-maps: after the call of \<^verbatim>\<open>create\<close> both
  inserts are outstanding, none has completed; and when the datastore answers the
  second first, the second instance is created while the insert of the first has not
  completed.
\<close>

theorem create_not_sequential_counterexample:
  "create save_insert ''A'' (Many [aart, bert]) JUndefined =
     AllOf [save_insert (new_instance ''A'' aart), save_insert (new_instance ''A'' bert)]
   \<and> outstanding [save_insert (new_instance ''A'' aart), save_insert (new_instance ''A'' bert)] =
       [TInsert aart, TInsert bert]
   \<and> map first_call (run [(1, Inr (Rows [bert_row]))]
        [save_insert (new_instance ''A'' aart), save_insert (new_instance ''A'' bert)]) =
       [Some (TInsert aart), None]"
proof -
  have a: "create save_insert ''A'' (Many [aart, bert]) JUndefined =
     AllOf [save_insert (new_instance ''A'' aart), save_insert (new_instance ''A'' bert)]"
    by (simp add: create_def new_instance_def)
  have b: "outstanding [save_insert (new_instance ''A'' aart), save_insert (new_instance ''A'' bert)] =
       [TInsert aart, TInsert bert]"
    by (simp add: outstanding_def save_insert_def new_instance_def new_ModelInstance_def)
  have c: "map first_call (run [(1, Inr (Rows [bert_row]))]
        [save_insert (new_instance ''A'' aart), save_insert (new_instance ''A'' bert)]) =
       [Some (TInsert aart), None]"
    by (simp add: run_def deliver_def save_insert_def new_instance_def new_ModelInstance_def)
  from a b c show ?thesis by blast
qed

end
